theory Spec2Isabelle
  imports Main "HOL-Library.Word"
begin

unbundle bit_operations_syntax

section \<open>JavaScript values used by the appointment controller\<close>

text \<open>
  Numbers with an integer value, \<open>Infinity\<close> and \<open>NaN\<close>: the numbers of a JSON
  document in this model, and the numbers of the controller when its query parameters are
  decimal numerals. A finite number is a double: every integer below \<open>2 ^ 53\<close> in
  magnitude is one, a larger integer is one when 53 bits hold its leading digits.
\<close>

datatype jsnum = Fin int | PosInf | NegInf | NaN

text \<open>
  The value of a parsed JSON document, of an entity's \<open>dataValues\<close> and of an object
  literal. An object keeps its keys in insertion order.
\<close>

datatype json =
    JUndefined
  | JNull
  | JBool bool
  | JNum jsnum
  | JStr string
  | JArr "json list"
  | JObj "(string \<times> json) list"

subsection \<open>Number to string, string to number\<close>

definition digit_char :: "nat \<Rightarrow> char" where
  "digit_char d = ''0123456789'' ! (d mod 10)"

fun show_nat :: "nat \<Rightarrow> string" where
  "show_nat n = (if n < 10 then [digit_char n] else show_nat (n div 10) @ [digit_char (n mod 10)])"

declare show_nat.simps [simp del]

text \<open>
  The double nearest to an integer (ties to the even significand, \<open>Infinity\<close> from
  \<open>2 ^ 1024\<close>): the value a decimal numeral converts to, and the result of an addition or
  subtraction of integer doubles.
\<close>

fun bit_length :: "nat \<Rightarrow> nat" where
  "bit_length n = (if n = 0 then 0 else Suc (bit_length (n div 2)))"

declare bit_length.simps [simp del]

definition to_double :: "int \<Rightarrow> jsnum" where
  "to_double i =
     (let a = nat \<bar>i\<bar> in
      if a < 2 ^ 53 then Fin i
      else
        (let e = bit_length a - 53;
             q = a div 2 ^ e;
             r = a mod 2 ^ e;
             h = 2 ^ (e - 1);
             q' = (if h < r \<or> (r = h \<and> odd q) then q + 1 else q);
             v = q' * 2 ^ e
         in if 2 ^ 1024 \<le> v then (if i < 0 then NegInf else PosInf)
            else Fin (if i < 0 then - int v else int v)))"

text \<open>
  \<open>Number::toString\<close> on an integer double \<open>x\<close>. Below \<open>2 ^ 53\<close> the digits are those of
  the integer. From there on they are the shortest digit string \<open>s\<close>, of \<open>k\<close> digits, such
  that \<open>s * 10 ^ (n - k)\<close> converts back to \<open>x\<close>; of two such strings the one nearer to
  \<open>x\<close> is taken, and the even one on a tie. Up to 21 digits the number is printed with
  its zeros, beyond that in exponent notation.
\<close>

definition converts_to :: "nat \<Rightarrow> nat \<Rightarrow> bool" where
  "converts_to x v = (to_double (int v) = Fin (int x))"

definition shortest_at :: "nat \<Rightarrow> nat \<Rightarrow> nat option" where
  "shortest_at x k =
     (let n = length (show_nat x);
          t = 10 ^ (n - k);
          s = x div t;
          lo = s * t;
          hi = (s + 1) * t
      in if converts_to x lo \<and> converts_to x hi then
           Some (if x - lo < hi - x then lo
                 else if hi - x < x - lo then hi
                 else if even s then lo else hi)
         else if converts_to x lo then Some lo
         else if converts_to x hi then Some hi
         else None)"

fun shortest_from :: "nat \<Rightarrow> nat list \<Rightarrow> nat" where
  "shortest_from x [] = x"
| "shortest_from x (k # ks) = (case shortest_at x k of Some v \<Rightarrow> v | None \<Rightarrow> shortest_from x ks)"

definition shortest_decimal :: "nat \<Rightarrow> nat" where
  "shortest_decimal x = shortest_from x [1, 2, 3, 4, 5, 6, 7, 8, 9, 10, 11, 12, 13, 14, 15, 16, 17]"

definition exponent_form :: "nat \<Rightarrow> string" where
  "exponent_form v =
     (let ds = show_nat v;
          sig = rev (dropWhile (\<lambda>c. c = CHR ''0'') (rev ds))
      in (case sig of
            [] \<Rightarrow> ''0''
          | c # cs \<Rightarrow> (if cs = [] then [c] else c # ''.'' @ cs))
         @ ''e+'' @ show_nat (length ds - 1))"

definition number_digits :: "nat \<Rightarrow> string" where
  "number_digits a =
     (if a < 2 ^ 53 then show_nat a
      else (let v = shortest_decimal a in
            if length (show_nat v) \<le> 21 then show_nat v else exponent_form v))"

definition show_int :: "int \<Rightarrow> string" where
  "show_int i = (if i < 0 then CHR ''-'' # number_digits (nat (- i)) else number_digits (nat i))"

fun num_to_string :: "jsnum \<Rightarrow> string" where
  "num_to_string (Fin i) = show_int i"
| "num_to_string PosInf = ''Infinity''"
| "num_to_string NegInf = ''-Infinity''"
| "num_to_string NaN = ''NaN''"

definition is_digit :: "char \<Rightarrow> bool" where
  "is_digit c = (48 \<le> (of_char c :: nat) \<and> (of_char c :: nat) \<le> 57)"

definition digit_val :: "char \<Rightarrow> nat" where
  "digit_val c = of_char c - 48"

definition decimal :: "string \<Rightarrow> bool" where
  "decimal s = list_all is_digit s"

definition str_value :: "string \<Rightarrow> nat" where
  "str_value s = foldl (\<lambda>a c. 10 * a + digit_val c) 0 s"

text \<open>
  \<open>ToNumber\<close> on a string of decimal digits (the empty string is \<open>0\<close>). On any other
  string this function answers \<open>NaN\<close>, which is JavaScript's answer for text that is no
  number but not for the other numeric forms (a sign, surrounding blanks, a fraction, an
  exponent, a radix prefix, \<open>Infinity\<close>): the statements below that use it fix the
  parameters to decimal numerals.
\<close>

definition string_to_number :: "string \<Rightarrow> jsnum" where
  "string_to_number s = (if decimal s then to_double (int (str_value s)) else NaN)"

subsection \<open>Operators on these numbers\<close>

text \<open>\<open>a < b\<close> on numbers: false whenever an operand is \<open>NaN\<close>.\<close>

fun num_lt :: "jsnum \<Rightarrow> jsnum \<Rightarrow> bool" where
  "num_lt NaN _ = False"
| "num_lt _ NaN = False"
| "num_lt (Fin a) (Fin b) = (a < b)"
| "num_lt (Fin a) PosInf = True"
| "num_lt (Fin a) NegInf = False"
| "num_lt PosInf _ = False"
| "num_lt NegInf NegInf = False"
| "num_lt NegInf _ = True"

text \<open>\<open>a + b\<close> on numbers, rounded to a double.\<close>

fun num_add :: "jsnum \<Rightarrow> jsnum \<Rightarrow> jsnum" where
  "num_add NaN _ = NaN"
| "num_add _ NaN = NaN"
| "num_add (Fin a) (Fin b) = to_double (a + b)"
| "num_add PosInf NegInf = NaN"
| "num_add NegInf PosInf = NaN"
| "num_add PosInf _ = PosInf"
| "num_add _ PosInf = PosInf"
| "num_add NegInf _ = NegInf"
| "num_add _ NegInf = NegInf"

fun num_neg :: "jsnum \<Rightarrow> jsnum" where
  "num_neg (Fin a) = Fin (- a)"
| "num_neg PosInf = NegInf"
| "num_neg NegInf = PosInf"
| "num_neg NaN = NaN"

text \<open>
  \<open>Math.ceil (count / limit)\<close> for a row count \<open>count\<close> and the number \<open>limit\<close>
  converts to. Division by zero gives \<open>NaN\<close> for \<open>0 / 0\<close> and \<open>Infinity\<close> otherwise.
  The quotient of a count below \<open>2 ^ 53\<close> by a positive integer rounds to a double with the
  same ceiling, so the ceiling is taken of the exact quotient.
\<close>

fun math_ceil_div :: "nat \<Rightarrow> jsnum \<Rightarrow> jsnum" where
  "math_ceil_div c NaN = NaN"
| "math_ceil_div c PosInf = Fin 0"
| "math_ceil_div c NegInf = Fin 0"
| "math_ceil_div c (Fin l) =
     (if l = 0 then (if c = 0 then NaN else PosInf) else Fin (- ((- int c) div l)))"

subsection \<open>Objects\<close>

text \<open>\<open>obj.k = v\<close>: an existing key keeps its place, a new key goes last.\<close>

fun obj_put :: "string \<Rightarrow> 'v \<Rightarrow> (string \<times> 'v) list \<Rightarrow> (string \<times> 'v) list" where
  "obj_put k v [] = [(k, v)]"
| "obj_put k v (p # ps) = (if fst p = k then (k, v) # ps else p # obj_put k v ps)"

text \<open>\<open>e.k\<close> for a value \<open>e\<close> that is not \<open>null\<close> or \<open>undefined\<close>.\<close>

fun field :: "json \<Rightarrow> string \<Rightarrow> json" where
  "field (JObj kvs) k = (case map_of kvs k of Some v \<Rightarrow> v | None \<Rightarrow> JUndefined)"
| "field _ k = JUndefined"

fun join :: "string \<Rightarrow> string list \<Rightarrow> string" where
  "join sep [] = []"
| "join sep [x] = x"
| "join sep (x # y # ys) = x @ sep @ join sep (y # ys)"

text \<open>\<open>`${v}`\<close> for any value (\<open>ToString\<close>).\<close>

fun json_to_string :: "json \<Rightarrow> string" where
  "json_to_string JUndefined = ''undefined''"
| "json_to_string JNull = ''null''"
| "json_to_string (JBool b) = (if b then ''true'' else ''false'')"
| "json_to_string (JNum n) = num_to_string n"
| "json_to_string (JStr s) = s"
| "json_to_string (JArr xs) =
     join '','' (map (\<lambda>x. if x = JUndefined \<or> x = JNull then [] else json_to_string x) xs)"
| "json_to_string (JObj kvs) = ''[object Object]''"

section \<open>Requests, responses, errors and the data store\<close>

text \<open>A thrown \<open>Error\<close>: its \<open>name\<close>, its \<open>message\<close> and, for a validation error of
  the ORM, the list \<open>errors\<close> of (\<open>path\<close>, \<open>message\<close>) items.\<close>

record js_error =
  err_name :: string
  err_message :: string
  err_errors :: "(string \<times> string) list"

text \<open>The query parameters \<open>getAppointments\<close> destructures; \<open>None\<close> is an absent one.\<close>

record list_query =
  q_page :: "string option"
  q_limit :: "string option"
  q_sortBy :: "string option"
  q_order :: "string option"
  q_startDate :: "string option"
  q_endDate :: "string option"

record request =
  protocol :: string
  host :: "string option"
  params :: "string \<rightharpoonup> string"
  query :: list_query
  body :: json

text \<open>What a handler has sent: the status set last (\<open>200\<close> unless \<open>res.status\<close> was
  called), the headers it set, and the value given to \<open>res.json\<close>.\<close>

record response =
  status :: nat
  headers :: "(string \<times> string) list"
  payload :: json

text \<open>
  The Sequelize model \<open>Appointment\<close> of \<open>../models/appointment\<close>, over a data store of
  type \<open>'db\<close>. Each operation either throws (\<open>Inl\<close>) or returns; an operation that writes
  returns the new store. An entity instance is the object of its \<open>dataValues\<close>.
  \<^item> \<open>findByPk\<close>: \<open>Appointment.findByPk (id)\<close>; \<open>None\<close> is \<open>null\<close>.
  \<^item> \<open>findAndCountAll\<close>: the call in \<open>getAppointments\<close> together with the options it
    builds from the query (\<open>parseInt\<close>, \<open>new Date\<close>, the defaults of \<open>sortBy\<close> and
    \<open>order\<close>), none of which throws; it returns \<open>count\<close> and \<open>rows\<close>.
  \<^item> \<open>findAll\<close>: \<open>Appointment.findAll ({where: {k: v}})\<close>.
  \<^item> \<open>create\<close>: \<open>Appointment.create (body)\<close>.
  \<^item> \<open>instance_update\<close>: \<open>appointment.update (values)\<close>, which changes the instance in
    memory whether or not the save succeeds; the second component is the instance
    afterwards.
  \<^item> \<open>instance_destroy\<close>: \<open>appointment.destroy ()\<close>.
  \<^item> \<open>destroy_where\<close>: \<open>Appointment.destroy ({where: {k: v}})\<close>, returning the number of
    rows deleted.
  \<^item> \<open>static_update\<close>: \<open>Appointment.update (values, {where: {id: v}})\<close>.
\<close>

record 'db orm =
  findByPk :: "'db \<Rightarrow> string option \<Rightarrow> js_error + json option"
  findAndCountAll :: "'db \<Rightarrow> list_query \<Rightarrow> js_error + nat \<times> json list"
  findAll :: "'db \<Rightarrow> string \<Rightarrow> string option \<Rightarrow> js_error + json list"
  create :: "'db \<Rightarrow> json \<Rightarrow> js_error + json \<times> 'db"
  instance_update :: "'db \<Rightarrow> json \<Rightarrow> json \<Rightarrow> (js_error + 'db) \<times> json"
  instance_destroy :: "'db \<Rightarrow> json \<Rightarrow> js_error + 'db"
  destroy_where :: "'db \<Rightarrow> string \<Rightarrow> string option \<Rightarrow> js_error + nat \<times> 'db"
  static_update :: "'db \<Rightarrow> json \<Rightarrow> json \<Rightarrow> js_error + 'db"

text \<open>\<open>`${req.get('host')}`\<close> and \<open>`${userId}`\<close>: an absent value prints as \<open>undefined\<close>.\<close>

fun opt_to_string :: "string option \<Rightarrow> string" where
  "opt_to_string None = ''undefined''"
| "opt_to_string (Some s) = s"

definition base_url :: "request \<Rightarrow> string" where
  "base_url req = protocol req @ ''://'' @ opt_to_string (host req)"

text \<open>\<open>res.status (code).json ({error: err.message})\<close>, the reply of every \<open>catch\<close>.\<close>

definition error_reply :: "nat \<Rightarrow> js_error \<Rightarrow> response" where
  "error_reply code err =
     \<lparr>status = code, headers = [], payload = JObj [(''error'', JStr (err_message err))]\<rparr>"

definition not_found_reply :: response where
  "not_found_reply =
     \<lparr>status = 404, headers = [], payload = JObj [(''message'', JStr ''Appointment not found'')]\<rparr>"

definition ok_reply :: "json \<Rightarrow> response" where
  "ok_reply v = \<lparr>status = 200, headers = [], payload = v\<rparr>"

section \<open>Numbers and query parameters in the listing handler\<close>

text \<open>
  The listing handler computes with whatever number its query strings convert to, so it
  is written over the number operations of the JavaScript engine, for a type \<open>'n\<close> of
  numbers:
  \<^item> \<open>str_number\<close>: \<open>ToNumber\<close> on a string;
  \<^item> \<open>number_str\<close>: \<open>ToString\<close> on a number, as a template literal applies it;
  \<^item> \<open>count_number\<close>: the number with a given natural value (the literals \<open>0\<close>, \<open>1\<close>
    and \<open>10\<close>, and the row count);
  \<^item> \<open>number_lt\<close>, \<open>number_sub\<close>, \<open>number_add\<close>: \<open>a < b\<close>, \<open>a - b\<close> and \<open>a + b\<close> on
    numbers;
  \<^item> \<open>number_ceil_div\<close>: \<open>Math.ceil (count / l)\<close>;
  \<^item> \<open>number_json\<close>: the number as a value of the reply.
\<close>

record 'n engine =
  str_number :: "string \<Rightarrow> 'n"
  number_str :: "'n \<Rightarrow> string"
  count_number :: "nat \<Rightarrow> 'n"
  number_lt :: "'n \<Rightarrow> 'n \<Rightarrow> bool"
  number_sub :: "'n \<Rightarrow> 'n \<Rightarrow> 'n"
  number_add :: "'n \<Rightarrow> 'n \<Rightarrow> 'n"
  number_ceil_div :: "nat \<Rightarrow> 'n \<Rightarrow> 'n"
  number_json :: "'n \<Rightarrow> json"

text \<open>
  The engine on the numbers with an integer value. It is JavaScript's for query strings
  that are decimal numerals and row counts below \<open>2 ^ 53\<close>; the statements about it fix
  the page and the page size to such numbers.
\<close>

definition js_numbers :: "jsnum engine" where
  "js_numbers =
     \<lparr>str_number = string_to_number,
      number_str = num_to_string,
      count_number = (\<lambda>n. Fin (int n)),
      number_lt = num_lt,
      number_sub = (\<lambda>a b. num_add a (num_neg b)),
      number_add = num_add,
      number_ceil_div = math_ceil_div,
      number_json = JNum\<rparr>"

text \<open>
  A value destructured from \<open>req.query\<close>: the numeric default of the destructuring
  pattern when the parameter is absent, the raw string otherwise.
\<close>

datatype 'n qval = QNum 'n | QStr string

fun to_number :: "'n engine \<Rightarrow> 'n qval \<Rightarrow> 'n" where
  "to_number js (QNum n) = n"
| "to_number js (QStr s) = str_number js s"

text \<open>\<open>`${v}`\<close> for a query value.\<close>

fun to_string :: "'n engine \<Rightarrow> 'n qval \<Rightarrow> string" where
  "to_string js (QNum n) = number_str js n"
| "to_string js (QStr s) = s"

fun qval_json :: "'n engine \<Rightarrow> 'n qval \<Rightarrow> json" where
  "qval_json js (QNum n) = number_json js n"
| "qval_json js (QStr s) = JStr s"

text \<open>
  \<open>v > n\<close> and \<open>v < n\<close> with a number \<open>n\<close> on the right: \<open>v\<close> is converted with
  \<open>ToNumber\<close> (in the controller the right operand is always the number \<open>1\<close> or
  \<open>totalPages\<close>).
\<close>

definition js_gt :: "'n engine \<Rightarrow> 'n qval \<Rightarrow> 'n \<Rightarrow> bool" where
  "js_gt js v n = number_lt js n (to_number js v)"

definition js_lt :: "'n engine \<Rightarrow> 'n qval \<Rightarrow> 'n \<Rightarrow> bool" where
  "js_lt js v n = number_lt js (to_number js v) n"

text \<open>\<open>v - n\<close>: always numeric.\<close>

definition js_minus :: "'n engine \<Rightarrow> 'n qval \<Rightarrow> 'n \<Rightarrow> 'n qval" where
  "js_minus js v n = QNum (number_sub js (to_number js v) n)"

text \<open>
  \<open>v + n\<close> with a number \<open>n\<close> on the right: when \<open>v\<close> is a string the number is
  converted to a string and appended, otherwise the numbers are added.
\<close>

fun js_plus :: "'n engine \<Rightarrow> 'n qval \<Rightarrow> 'n \<Rightarrow> 'n qval" where
  "js_plus js (QStr s) n = QStr (s @ number_str js n)"
| "js_plus js (QNum m) n = QNum (number_add js m n)"

section \<open>The listing handler\<close>

text \<open>\<open>res.links (links)\<close> of Express: the \<open>Link\<close> header.\<close>

definition link_header :: "(string \<times> string) list \<Rightarrow> string" where
  "link_header links =
     join '', '' (map (\<lambda>(rel, url). ''<'' @ url @ ''>; rel='' @ [CHR 0x22] @ rel @ [CHR 0x22]) links)"

definition page_url :: "'n engine \<Rightarrow> string \<Rightarrow> 'n qval \<Rightarrow> 'n qval \<Rightarrow> string" where
  "page_url js baseUrl p limit =
     baseUrl @ ''?page='' @ to_string js p @ ''&limit='' @ to_string js limit"

text \<open>Lines 38 to 56: \<open>totalPages\<close> and the links object.\<close>

definition totalPages :: "'n engine \<Rightarrow> nat \<Rightarrow> 'n qval \<Rightarrow> 'n" where
  "totalPages js count limit = number_ceil_div js count (to_number js limit)"

definition pagination_links ::
  "'n engine \<Rightarrow> string \<Rightarrow> 'n qval \<Rightarrow> 'n qval \<Rightarrow> 'n \<Rightarrow> (string \<times> string) list" where
  "pagination_links js baseUrl page limit tp =
     (let links = [(''self'', page_url js baseUrl page limit)] in
      if number_lt js (count_number js 0) tp then
        (let links = obj_put ''first'' (page_url js baseUrl (QNum (count_number js 1)) limit) links;
             links = obj_put ''last'' (page_url js baseUrl (QNum tp) limit) links;
             links = (if js_gt js page (count_number js 1)
                      then obj_put ''prev''
                        (page_url js baseUrl (js_minus js page (count_number js 1)) limit) links
                      else links);
             links = (if js_lt js page tp
                      then obj_put ''next''
                        (page_url js baseUrl (js_plus js page (count_number js 1)) limit) links
                      else links)
         in links)
      else links)"

definition query_page :: "'n engine \<Rightarrow> list_query \<Rightarrow> 'n qval" where
  "query_page js q = (case q_page q of None \<Rightarrow> QNum (count_number js 1) | Some s \<Rightarrow> QStr s)"

definition query_limit :: "'n engine \<Rightarrow> list_query \<Rightarrow> 'n qval" where
  "query_limit js q = (case q_limit q of None \<Rightarrow> QNum (count_number js 10) | Some s \<Rightarrow> QStr s)"

definition getAppointments :: "'n engine \<Rightarrow> 'db orm \<Rightarrow> request \<Rightarrow> 'db \<Rightarrow> response" where
  "getAppointments js m req d =
     (let page = query_page js (query req); limit = query_limit js (query req) in
      case findAndCountAll m d (query req) of
        Inl err \<Rightarrow> error_reply 500 err
      | Inr (count, appointments) \<Rightarrow>
          (let tp = totalPages js count limit;
               links = pagination_links js (base_url req @ ''/appointments'') page limit tp
           in \<lparr>status = 200,
               headers = [(''Link'', link_header links)],
               payload = JObj
                 [(''data'', JArr appointments),
                  (''pagination'', JObj
                     [(''total'', number_json js (count_number js count)),
                      (''page'', qval_json js page),
                      (''limit'', qval_json js limit),
                      (''totalPages'', number_json js tp)]),
                  (''_links'', JObj (map (\<lambda>(rel, url). (rel, JStr url)) links))]\<rparr>))"

text \<open>The \<open>_links\<close> object of a reply, and whether it has a key.\<close>

definition reply_links :: "response \<Rightarrow> json" where
  "reply_links r = field (payload r) ''_links''"

fun has_key :: "json \<Rightarrow> string \<Rightarrow> bool" where
  "has_key (JObj kvs) k = (map_of kvs k \<noteq> None)"
| "has_key _ k = False"

section \<open>The synchronous handlers of single appointments\<close>

definition reference_error :: "string \<Rightarrow> js_error" where
  "reference_error v =
     \<lparr>err_name = ''ReferenceError'', err_message = v @ '' is not defined'', err_errors = []\<rparr>"

definition type_error :: "string \<Rightarrow> js_error" where
  "type_error msg = \<lparr>err_name = ''TypeError'', err_message = msg, err_errors = []\<rparr>"

definition link :: "string \<Rightarrow> string \<Rightarrow> json" where
  "link href method = JObj [(''href'', JStr href), (''method'', JStr method)]"

text \<open>Lines 86 to 116: the \<open>_links\<close> section of one appointment.\<close>

definition entity_links :: "string \<Rightarrow> json \<Rightarrow> json" where
  "entity_links baseUrl appointment =
     (let self = baseUrl @ ''/appointments/'' @ json_to_string (field appointment ''id'') in
      JObj
        [(''self'', link self ''GET''),
         (''schedule'',
            link (baseUrl @ ''/schedules/'' @ json_to_string (field appointment ''scheduleId'')) ''GET''),
         (''user'', link (baseUrl @ ''/users/'' @ json_to_string (field appointment ''userId'')) ''GET''),
         (''collection'', link (baseUrl @ ''/appointments'') ''GET''),
         (''update'', link self ''PUT''),
         (''delete'', link self ''DELETE'')])"

text \<open>\<open>e.dataValues.k = v\<close> on an entity.\<close>

fun set_field :: "json \<Rightarrow> string \<Rightarrow> json \<Rightarrow> json" where
  "set_field (JObj kvs) k v = JObj (obj_put k v kvs)"
| "set_field j k v = j"

text \<open>
  The \<open>try\<close> block of \<open>getAppointmentById\<close>. The constant \<open>baseUrl\<close> is declared inside
  the block of \<open>if (appointment)\<close> (line 83) and no outer scope binds the name, so the
  object literal of the \<open>else\<close> block (line 124) throws a \<open>ReferenceError\<close> while the
  argument of \<open>json\<close> is evaluated, after \<open>res.status (404)\<close> has run and before anything
  is sent.
\<close>

definition getAppointmentById_try :: "'db orm \<Rightarrow> request \<Rightarrow> 'db \<Rightarrow> js_error + response" where
  "getAppointmentById_try m req d =
     (case findByPk m d (params req ''id'') of
        Inl err \<Rightarrow> Inl err
      | Inr (Some appointment) \<Rightarrow>
          Inr (ok_reply (set_field appointment ''_links'' (entity_links (base_url req) appointment)))
      | Inr None \<Rightarrow> Inl (reference_error ''baseUrl''))"

definition getAppointmentById :: "'db orm \<Rightarrow> request \<Rightarrow> 'db \<Rightarrow> response" where
  "getAppointmentById m req d =
     (case getAppointmentById_try m req d of
        Inr r \<Rightarrow> r
      | Inl err \<Rightarrow> error_reply 500 err)"

definition createAppointment :: "'db orm \<Rightarrow> request \<Rightarrow> 'db \<Rightarrow> response \<times> 'db" where
  "createAppointment m req d =
     (case create m d (body req) of
        Inl err \<Rightarrow> (error_reply 400 err, d)
      | Inr (newAppointment, d') \<Rightarrow>
          (\<lparr>status = 201,
            headers = [(''Location'',
              base_url req @ ''/appointments/'' @ json_to_string (field newAppointment ''id''))],
            payload = newAppointment\<rparr>, d'))"

definition updateAppointment :: "'db orm \<Rightarrow> request \<Rightarrow> 'db \<Rightarrow> response \<times> 'db" where
  "updateAppointment m req d =
     (case findByPk m d (params req ''id'') of
        Inl err \<Rightarrow> (error_reply 400 err, d)
      | Inr None \<Rightarrow> (not_found_reply, d)
      | Inr (Some appointment) \<Rightarrow>
          (case instance_update m d appointment (body req) of
             (Inl err, _) \<Rightarrow> (error_reply 400 err, d)
           | (Inr d', appointment') \<Rightarrow> (ok_reply appointment', d')))"

definition deleteAppointment :: "'db orm \<Rightarrow> request \<Rightarrow> 'db \<Rightarrow> response \<times> 'db" where
  "deleteAppointment m req d =
     (case findByPk m d (params req ''id'') of
        Inl err \<Rightarrow> (error_reply 500 err, d)
      | Inr None \<Rightarrow> (not_found_reply, d)
      | Inr (Some appointment) \<Rightarrow>
          (case instance_destroy m d appointment of
             Inl err \<Rightarrow> (error_reply 500 err, d)
           | Inr d' \<Rightarrow> (ok_reply (JObj [(''message'', JStr ''Appointment deleted'')]), d')))"

definition getAppointmentsByUserId :: "'db orm \<Rightarrow> request \<Rightarrow> 'db \<Rightarrow> response" where
  "getAppointmentsByUserId m req d =
     (case findAll m d ''userId'' (params req ''userId'') of
        Inl err \<Rightarrow> error_reply 500 err
      | Inr appointments \<Rightarrow> ok_reply (JArr appointments))"

definition deleteAppointmentsByUserId :: "'db orm \<Rightarrow> request \<Rightarrow> 'db \<Rightarrow> response \<times> 'db" where
  "deleteAppointmentsByUserId m req d =
     (case destroy_where m d ''userId'' (params req ''userId'') of
        Inl err \<Rightarrow> (error_reply 500 err, d)
      | Inr (result, d') \<Rightarrow>
          (ok_reply (JObj [(''message'', JStr (show_nat result @ '' appointments made by student ''
             @ opt_to_string (params req ''userId'') @ '' canceled.''))]), d'))"

definition getAppointmentsByScheduleId :: "'db orm \<Rightarrow> request \<Rightarrow> 'db \<Rightarrow> response" where
  "getAppointmentsByScheduleId m req d =
     (case findAll m d ''scheduleId'' (params req ''scheduleId'') of
        Inl err \<Rightarrow> error_reply 500 err
      | Inr appointments \<Rightarrow> ok_reply (JArr appointments))"

text \<open>The error middleware of lines 253 to 280. No handler of the file passes an error to
  it, and the module does not export it.\<close>

definition errorHandler :: "js_error \<Rightarrow> response" where
  "errorHandler err =
     (if err_name err = ''SequelizeValidationError'' then
        \<lparr>status = 400, headers = [],
         payload = JObj
           [(''status'', JStr ''error''),
            (''code'', JStr ''VALIDATION_ERROR''),
            (''message'', JStr ''Invalid input data''),
            (''details'', JArr (map (\<lambda>(path, msg). JObj [(''field'', JStr path), (''message'', JStr msg)])
               (err_errors err)))]\<rparr>
      else if err_name err = ''SequelizeUniqueConstraintError'' then
        \<lparr>status = 409, headers = [],
         payload = JObj
           [(''status'', JStr ''error''),
            (''code'', JStr ''CONFLICT''),
            (''message'', JStr ''Resource already exists'')]\<rparr>
      else
        \<lparr>status = 500, headers = [],
         payload = JObj
           [(''status'', JStr ''error''),
            (''code'', JStr ''INTERNAL_ERROR''),
            (''message'', JStr ''An unexpected error occurred'')]\<rparr>)"

section \<open>The operation tracker and the shared state\<close>

text \<open>
  Modelled from the spec: the cache module \<open>../utils/cache\<close> is not part of the sources.
  Its contract (section 4.1) is that \<open>set (id, record)\<close> stores or overwrites the record
  of \<open>id\<close> and \<open>get (id)\<close> retrieves it. The tracker is kept as the log of its writes,
  newest first, so that the history of a key can be read off as well as its current
  record.
\<close>

type_synonym tracker = "(string \<times> json) list"

definition cache_set :: "string \<Rightarrow> json \<Rightarrow> tracker \<Rightarrow> tracker" where
  "cache_set k v c = (k, v) # c"

definition cache_get :: "tracker \<Rightarrow> string \<Rightarrow> json option" where
  "cache_get c k = map_of c k"

text \<open>The writes made under one key, oldest first.\<close>

definition history :: "tracker \<Rightarrow> string \<Rightarrow> json list" where
  "history c k = rev (map snd (filter (\<lambda>kv. fst kv = k) c))"

record 'db world =
  db :: 'db
  cache :: tracker

definition is_terminal :: "json \<Rightarrow> bool" where
  "is_terminal r = (field r ''status'' = JStr ''completed'' \<or> field r ''status'' = JStr ''failed'')"

section \<open>Identifiers\<close>

text \<open>
  \<open>crypto.randomUUID ()\<close> of Node: a version 4 UUID of RFC 4122. Sixteen random bytes
  \<open>rnd 0\<close>, ..., \<open>rnd 15\<close> are drawn; the high nibble of byte 6 is set to the version \<open>4\<close>,
  the two high bits of byte 8 to the variant \<open>10\<close>, and the bytes are printed in lower-case
  hexadecimal in groups of 4, 2, 2, 2 and 6 bytes separated by hyphens.
\<close>

definition hex_char :: "nat \<Rightarrow> char" where
  "hex_char n = ''0123456789abcdef'' ! (n mod 16)"

definition hex_byte :: "8 word \<Rightarrow> string" where
  "hex_byte b = [hex_char (unat b div 16), hex_char (unat b mod 16)]"

definition uuid_byte :: "(nat \<Rightarrow> 8 word) \<Rightarrow> nat \<Rightarrow> 8 word" where
  "uuid_byte rnd i =
     (if i = 6 then (rnd 6 AND 0x0f) OR 0x40
      else if i = 8 then (rnd 8 AND 0x3f) OR 0x80
      else rnd i)"

definition hex_group :: "(nat \<Rightarrow> 8 word) \<Rightarrow> nat list \<Rightarrow> string" where
  "hex_group rnd is = concat (map (\<lambda>i. hex_byte (uuid_byte rnd i)) is)"

definition randomUUID :: "(nat \<Rightarrow> 8 word) \<Rightarrow> string" where
  "randomUUID rnd =
     hex_group rnd [0, 1, 2, 3] @ ''-'' @ hex_group rnd [4, 5] @ ''-'' @ hex_group rnd [6, 7] @ ''-''
       @ hex_group rnd [8, 9] @ ''-'' @ hex_group rnd [10, 11, 12, 13, 14, 15]"

section \<open>The bulk update job\<close>

definition quoted :: "string \<Rightarrow> string" where
  "quoted s = [CHR 0x27] @ s @ [CHR 0x27]"

text \<open>\<open>const { appointments } = req.body\<close>: throws on \<open>undefined\<close> and \<open>null\<close> (the
  message is the one of V8).\<close>

fun destructure_appointments :: "json \<Rightarrow> js_error + json" where
  "destructure_appointments JUndefined =
     Inl (type_error (''Cannot destructure property '' @ quoted ''appointments'' @ '' of ''
       @ quoted ''req.body'' @ '' as it is undefined.''))"
| "destructure_appointments JNull =
     Inl (type_error (''Cannot destructure property '' @ quoted ''appointments'' @ '' of ''
       @ quoted ''req.body'' @ '' as it is null.''))"
| "destructure_appointments b = Inr (field b ''appointments'')"

text \<open>
  A pending bulk job: the \<open>jobId\<close> and the value of \<open>appointments\<close> that the callback
  given to \<open>process.nextTick\<close> closes over.
\<close>

type_synonym bulk_job = "string \<times> json"

text \<open>
  \<open>bulkUpdateAppointments\<close> up to the scheduling of the callback; \<open>now\<close> is the value of
  \<open>Date.now ()\<close>, the milliseconds since the epoch. The function has no \<open>try\<close> of its own:
  \<open>Inl\<close> is the rejection of the handler, with nothing sent. Neither the store nor the
  tracker is touched before the callback runs.
\<close>

definition bulkUpdateAppointments :: "nat \<Rightarrow> request \<Rightarrow> js_error + response \<times> bulk_job" where
  "bulkUpdateAppointments now req =
     (case destructure_appointments (body req) of
        Inl err \<Rightarrow> Inl err
      | Inr appointments \<Rightarrow>
          (let jobId = show_nat now in
           Inr (\<lparr>status = 202, headers = [],
                 payload = JObj
                   [(''message'', JStr ''Update job accepted''),
                    (''statusUrl'', JStr (''/appointments/jobs/'' @ jobId))]\<rparr>,
                (jobId, appointments))))"

text \<open>\<open>for (const appt of appointments)\<close>: the items of an array, the characters of a
  string, and a \<open>TypeError\<close> for a value that is not iterable.\<close>

fun iterate :: "json \<Rightarrow> js_error + json list" where
  "iterate (JArr xs) = Inr xs"
| "iterate (JStr s) = Inr (map (\<lambda>c. JStr [c]) s)"
| "iterate _ = Inl (type_error ''appointments is not iterable'')"

text \<open>\<open>appt.id\<close>, which throws when the item is \<open>null\<close> or \<open>undefined\<close>.\<close>

fun item_id :: "json \<Rightarrow> js_error + json" where
  "item_id JUndefined =
     Inl (type_error (''Cannot read properties of undefined (reading '' @ quoted ''id'' @ '')''))"
| "item_id JNull =
     Inl (type_error (''Cannot read properties of null (reading '' @ quoted ''id'' @ '')''))"
| "item_id appt = Inr (field appt ''id'')"

text \<open>One iteration: \<open>await Appointment.update (appt, {where: {id: appt.id}})\<close>.\<close>

definition item_update :: "'db orm \<Rightarrow> 'db \<Rightarrow> json \<Rightarrow> js_error + 'db" where
  "item_update m d appt =
     (case item_id appt of
        Inl err \<Rightarrow> Inl err
      | Inr i \<Rightarrow> static_update m d appt i)"

text \<open>The loop of lines 237 to 241: the error that ended it, if any, and the store as the
  loop left it.\<close>

fun bulk_loop :: "'db orm \<Rightarrow> json list \<Rightarrow> 'db \<Rightarrow> js_error option \<times> 'db" where
  "bulk_loop m [] d = (None, d)"
| "bulk_loop m (appt # rest) d =
     (case item_update m d appt of
        Inl err \<Rightarrow> (Some err, d)
      | Inr d' \<Rightarrow> bulk_loop m rest d')"

definition job_completed :: json where
  "job_completed = JObj [(''status'', JStr ''completed'')]"

definition job_failed :: "js_error \<Rightarrow> json" where
  "job_failed err = JObj [(''status'', JStr ''failed''), (''error'', JStr (err_message err))]"

text \<open>The callback of lines 234 to 250, run on the state it finds when its tick comes.\<close>

definition bulk_task :: "'db orm \<Rightarrow> bulk_job \<Rightarrow> 'db world \<Rightarrow> 'db world" where
  "bulk_task m job w =
     (case job of (jobId, appointments) \<Rightarrow>
        (case iterate appointments of
           Inl err \<Rightarrow> w\<lparr>cache := cache_set jobId (job_failed err) (cache w)\<rparr>
         | Inr items \<Rightarrow>
             (case bulk_loop m items (db w) of
                (None, d') \<Rightarrow> \<lparr>db = d', cache = cache_set jobId job_completed (cache w)\<rparr>
              | (Some err, d') \<Rightarrow> \<lparr>db = d', cache = cache_set jobId (job_failed err) (cache w)\<rparr>)))"

text \<open>
  \<open>applied m d xs d'\<close>: taken one after the other in the order of the list, every update
  of \<open>xs\<close> succeeds, and together they take the store from \<open>d\<close> to \<open>d'\<close>.
\<close>

inductive applied :: "'db orm \<Rightarrow> 'db \<Rightarrow> json list \<Rightarrow> 'db \<Rightarrow> bool" where
  applied_none: "applied m d [] d"
| applied_item: "item_update m d x = Inr d1 \<Longrightarrow> applied m d1 xs d2 \<Longrightarrow> applied m d (x # xs) d2"

code_pred applied .

section \<open>The asynchronous update of one appointment\<close>

text \<open>
  A pending operation: the arguments of the call \<open>processAppointmentUpdate (operationId,
  appointment, req.body)\<close>, whose body waits for the timer before it does anything.
\<close>

type_synonym operation = "string \<times> json \<times> json"

fun opt_json :: "string option \<Rightarrow> json" where
  "opt_json None = JUndefined"
| "opt_json (Some s) = JStr s"

definition processing_record :: "string option \<Rightarrow> json \<Rightarrow> json" where
  "processing_record appointmentId data =
     JObj
       [(''status'', JStr ''processing''),
        (''resourceType'', JStr ''appointment''),
        (''resourceId'', opt_json appointmentId),
        (''operation'', JStr ''update''),
        (''data'', data)]"

text \<open>
  \<open>updateAppointmentAsync\<close>, with the random bytes \<open>rnd\<close> that \<open>crypto.randomUUID\<close>
  draws. It returns the reply, the state when the reply is sent, and the operation left
  pending, if any. The handler itself never writes to the store.
\<close>

definition updateAppointmentAsync ::
  "'db orm \<Rightarrow> (nat \<Rightarrow> 8 word) \<Rightarrow> request \<Rightarrow> 'db world \<Rightarrow> response \<times> 'db world \<times> operation option" where
  "updateAppointmentAsync m rnd req w =
     (let appointmentId = params req ''id'' in
      case findByPk m (db w) appointmentId of
        Inl err \<Rightarrow> (error_reply 400 err, w, None)
      | Inr None \<Rightarrow> (not_found_reply, w, None)
      | Inr (Some appointment) \<Rightarrow>
          (let operationId = randomUUID rnd;
               statusUrl = base_url req @ ''/operations/'' @ operationId;
               w' = w\<lparr>cache := cache_set operationId
                      (processing_record appointmentId (body req)) (cache w)\<rparr>
           in (\<lparr>status = 202,
                headers = [(''Location'', statusUrl)],
                payload = JObj
                  [(''message'', JStr ''Update request accepted''),
                   (''statusUrl'', JStr statusUrl),
                   (''operationId'', JStr operationId)]\<rparr>,
               w',
               Some (operationId, appointment, body req))))"

definition completed_record :: "json \<Rightarrow> json" where
  "completed_record appointment =
     JObj
       [(''status'', JStr ''completed''),
        (''resourceType'', JStr ''appointment''),
        (''resourceId'', field appointment ''id''),
        (''operation'', JStr ''update''),
        (''result'', appointment)]"

definition failed_record :: "json \<Rightarrow> js_error \<Rightarrow> json" where
  "failed_record appointment err =
     JObj
       [(''status'', JStr ''failed''),
        (''resourceType'', JStr ''appointment''),
        (''resourceId'', field appointment ''id''),
        (''operation'', JStr ''update''),
        (''error'', JStr (err_message err))]"

text \<open>\<open>processAppointmentUpdate\<close> from the moment its timer fires, on the state it finds
  then.\<close>

definition processAppointmentUpdate :: "'db orm \<Rightarrow> operation \<Rightarrow> 'db world \<Rightarrow> 'db world" where
  "processAppointmentUpdate m op w =
     (case op of (operationId, appointment, updateData) \<Rightarrow>
        (case instance_update m (db w) appointment updateData of
           (Inr d', appointment') \<Rightarrow>
             \<lparr>db = d', cache = cache_set operationId (completed_record appointment') (cache w)\<rparr>
         | (Inl err, appointment') \<Rightarrow>
             w\<lparr>cache := cache_set operationId (failed_record appointment' err) (cache w)\<rparr>))"

section \<open>An in-memory store for the examples\<close>

text \<open>
  The examples below run the handlers on a concrete store: a table of appointment rows,
  with an ORM that looks rows up by the printed value of a column, pages a listing with
  the decimal values of \<open>page\<close> and \<open>limit\<close>, rejects a \<open>null\<close> start time as a validation
  error and a second row with the same \<open>id\<close> as a unique-constraint violation.
\<close>

definition validation_error :: js_error where
  "validation_error =
     \<lparr>err_name = ''SequelizeValidationError'',
      err_message = ''notNull Violation: Appointment.startTime cannot be null'',
      err_errors = [(''startTime'', ''Appointment.startTime cannot be null'')]\<rparr>"

definition unique_error :: js_error where
  "unique_error =
     \<lparr>err_name = ''SequelizeUniqueConstraintError'',
      err_message = ''Validation error'',
      err_errors = [(''id'', ''id must be unique'')]\<rparr>"

definition connection_error :: js_error where
  "connection_error =
     \<lparr>err_name = ''SequelizeConnectionRefusedError'',
      err_message = ''connect ECONNREFUSED 127.0.0.1:3306'',
      err_errors = []\<rparr>"

fun merge :: "json \<Rightarrow> json \<Rightarrow> json" where
  "merge e (JObj kvs) = foldl (\<lambda>a kv. set_field a (fst kv) (snd kv)) e kvs"
| "merge e _ = e"

definition column_is :: "string \<Rightarrow> string option \<Rightarrow> json \<Rightarrow> bool" where
  "column_is k v r = (Some (json_to_string (field r k)) = v)"

definition page_of :: "list_query \<Rightarrow> nat" where
  "page_of q = (case q_page q of None \<Rightarrow> 1 | Some s \<Rightarrow> str_value s)"

definition limit_of :: "list_query \<Rightarrow> nat" where
  "limit_of q = (case q_limit q of None \<Rightarrow> 10 | Some s \<Rightarrow> str_value s)"

definition table_orm :: "json list orm" where
  "table_orm =
     \<lparr>findByPk = (\<lambda>rows i. Inr (find (column_is ''id'' i) rows)),
      findAndCountAll = (\<lambda>rows q.
        Inr (length rows, take (limit_of q) (drop ((page_of q - 1) * limit_of q) rows))),
      findAll = (\<lambda>rows k v. Inr (filter (column_is k v) rows)),
      create = (\<lambda>rows b.
        if field b ''startTime'' = JNull then Inl validation_error
        else if list_ex (\<lambda>r. field r ''id'' = field b ''id'') rows then Inl unique_error
        else Inr (b, rows @ [b])),
      instance_update = (\<lambda>rows a v.
        if field v ''startTime'' = JNull then (Inl validation_error, merge a v)
        else (Inr (map (\<lambda>r. if field r ''id'' = field a ''id'' then merge a v else r) rows),
              merge a v)),
      instance_destroy = (\<lambda>rows a. Inr (filter (\<lambda>r. field r ''id'' \<noteq> field a ''id'') rows)),
      destroy_where = (\<lambda>rows k v.
        Inr (length (filter (column_is k v) rows), filter (\<lambda>r. \<not> column_is k v r) rows)),
      static_update = (\<lambda>rows v i.
        if field v ''startTime'' = JNull then Inl validation_error
        else Inr (map (\<lambda>r. if field r ''id'' = i then merge r v else r) rows))\<rparr>"

text \<open>An ORM whose every call throws \<open>err\<close>, as when the database is unreachable.\<close>

definition failing_orm :: "js_error \<Rightarrow> 'db orm" where
  "failing_orm err =
     \<lparr>findByPk = (\<lambda>d i. Inl err),
      findAndCountAll = (\<lambda>d q. Inl err),
      findAll = (\<lambda>d k v. Inl err),
      create = (\<lambda>d b. Inl err),
      instance_update = (\<lambda>d a v. (Inl err, a)),
      instance_destroy = (\<lambda>d a. Inl err),
      destroy_where = (\<lambda>d k v. Inl err),
      static_update = (\<lambda>d v i. Inl err)\<rparr>"

definition appt_user :: "int \<Rightarrow> int \<Rightarrow> json" where
  "appt_user i u =
     JObj
       [(''id'', JNum (Fin i)),
        (''scheduleId'', JNum (Fin 7)),
        (''userId'', JNum (Fin u)),
        (''startTime'', JStr ''2024-11-05T09:00:00.000Z''),
        (''endTime'', JStr ''2024-11-05T09:30:00.000Z'')]"

definition appt :: "int \<Rightarrow> json" where
  "appt i = appt_user i 42"

definition table25 :: "json list" where
  "table25 = map (\<lambda>i. appt (int i)) [1..<26]"

definition no_query :: list_query where
  "no_query =
     \<lparr>q_page = None, q_limit = None, q_sortBy = None, q_order = None,
      q_startDate = None, q_endDate = None\<rparr>"

definition list_request :: "string option \<Rightarrow> string option \<Rightarrow> request" where
  "list_request p l =
     \<lparr>protocol = ''http'', host = Some ''localhost:3000'', params = Map.empty,
      query = no_query\<lparr>q_page := p, q_limit := l\<rparr>, body = JUndefined\<rparr>"

definition id_request :: "string \<Rightarrow> json \<Rightarrow> request" where
  "id_request i b =
     \<lparr>protocol = ''http'', host = Some ''localhost:3000'', params = [''id'' \<mapsto> i],
      query = no_query, body = b\<rparr>"

definition body_request :: "json \<Rightarrow> request" where
  "body_request b =
     \<lparr>protocol = ''http'', host = Some ''localhost:3000'', params = Map.empty,
      query = no_query, body = b\<rparr>"

text \<open>The table ORM on a database whose deletions are refused.\<close>

definition no_delete_orm :: "json list orm" where
  "no_delete_orm = table_orm\<lparr>instance_destroy := (\<lambda>rows a. Inl connection_error)\<rparr>"

definition world3 :: "json list world" where
  "world3 = \<lparr>db = [appt 1, appt 2, appt 3], cache = []\<rparr>"

definition new_time :: json where
  "new_time = JObj [(''startTime'', JStr ''2024-11-06T10:00:00.000Z'')]"

definition null_time :: json where
  "null_time = JObj [(''startTime'', JNull)]"

definition sample_bytes :: "nat \<Rightarrow> 8 word" where
  "sample_bytes i = of_nat (17 * i + 200)"

definition change :: "int \<Rightarrow> string \<Rightarrow> json \<Rightarrow> json" where
  "change i k v = JObj [(''id'', JNum (Fin i)), (k, v)]"

definition bulk_request :: "json \<Rightarrow> request" where
  "bulk_request items =
     \<lparr>protocol = ''http'', host = Some ''localhost:3000'', params = Map.empty,
      query = no_query, body = JObj [(''appointments'', items)]\<rparr>"

text \<open>Two bulk submissions: one whose updates all succeed, one whose second item is
  rejected.\<close>

definition good_items :: "json list" where
  "good_items = [change 1 ''userId'' (JNum (Fin 5)), change 2 ''userId'' (JNum (Fin 6))]"

definition bad_items :: "json list" where
  "bad_items =
     [change 1 ''userId'' (JNum (Fin 8)), change 2 ''startTime'' JNull,
      change 3 ''userId'' (JNum (Fin 9))]"

section \<open>Properties of the listing handler\<close>

lemma map_of_obj_put: "map_of (obj_put k v xs) k' = (if k' = k then Some v else map_of xs k')"
  by (induction xs) auto

lemma links_prev:
  "map_of (pagination_links js B page limit tp) ''prev'' =
     (if number_lt js (count_number js 0) tp \<and> js_gt js page (count_number js 1)
      then Some (page_url js B (js_minus js page (count_number js 1)) limit) else None)"
  by (simp add: pagination_links_def Let_def map_of_obj_put)

lemma links_next:
  "map_of (pagination_links js B page limit tp) ''next'' =
     (if number_lt js (count_number js 0) tp \<and> js_lt js page tp
      then Some (page_url js B (js_plus js page (count_number js 1)) limit) else None)"
  by (simp add: pagination_links_def Let_def map_of_obj_put)

lemma map_of_JStr: "map_of (map (\<lambda>(rel, url). (rel, JStr url)) links) k = map_option JStr (map_of links k)"
  by (induction links) auto

lemma reply_links_ok:
  "findAndCountAll m d (query req) = Inr (count, rows) \<Longrightarrow>
   reply_links (getAppointments js m req d) =
     JObj (map (\<lambda>(rel, url). (rel, JStr url))
       (pagination_links js (base_url req @ ''/appointments'') (query_page js (query req))
          (query_limit js (query req)) (totalPages js count (query_limit js (query req)))))"
  by (simp add: getAppointments_def reply_links_def Let_def)

lemma has_prev:
  "findAndCountAll m d (query req) = Inr (count, rows) \<Longrightarrow>
   has_key (reply_links (getAppointments js m req d)) ''prev'' =
     (number_lt js (count_number js 0) (totalPages js count (query_limit js (query req)))
      \<and> js_gt js (query_page js (query req)) (count_number js 1))"
  by (simp add: reply_links_ok map_of_JStr links_prev)

lemma has_next:
  "findAndCountAll m d (query req) = Inr (count, rows) \<Longrightarrow>
   has_key (reply_links (getAppointments js m req d)) ''next'' =
     (number_lt js (count_number js 0) (totalPages js count (query_limit js (query req)))
      \<and> js_lt js (query_page js (query req)) (totalPages js count (query_limit js (query req))))"
  by (simp add: reply_links_ok map_of_JStr links_next)

text \<open>The integer form of \<open>Math.ceil (c / l)\<close> is the usual rounded-up quotient.\<close>

lemma ceil_nat_aux:
  assumes "0 < (l::nat)"
  shows "(c + l - 1) div l = (if c mod l = 0 then c div l else c div l + 1)"
proof -
  define q where "q = c div l"
  define r where "r = c mod l"
  have c: "c = q * l + r" and r: "r < l"
    using assms by (simp_all add: q_def r_def)
  have step: "(k * l + x) div l = k" if "x < l" for k x
    using that by simp
  show ?thesis
  proof (cases "r = 0")
    case True
    have "c + l - 1 = q * l + (l - 1)" using c True assms by simp
    moreover have "l - 1 < l" using assms by simp
    ultimately have "(c + l - 1) div l = q" using step by presburger
    then show ?thesis using True by (simp add: q_def r_def)
  next
    case False
    have "c + l - 1 = (q + 1) * l + (r - 1)" using c False by simp
    moreover have "r - 1 < l" using r by simp
    ultimately have "(c + l - 1) div l = q + 1" using step by presburger
    then show ?thesis using False by (simp add: q_def r_def)
  qed
qed

lemma ceil_div_nat:
  assumes "0 < l"
  shows "- ((- int c) div int l) = int ((c + l - 1) div l)"
proof -
  have d: "int c div int l = int (c div l)"
    by (rule zdiv_int [symmetric])
  have m: "int c mod int l = int (c mod l)"
    by (rule zmod_int [symmetric])
  have "int l \<noteq> 0"
    using assms by simp
  then have "(- int c) div int l =
      (if int c mod int l = 0 then - (int c div int l) else - (int c div int l) - 1)"
    by (rule zdiv_zminus1_eq_if)
  then have "- ((- int c) div int l) = (if c mod l = 0 then int (c div l) else int (c div l) + 1)"
    unfolding d m by (simp split: if_splits)
  also have "\<dots> = int (if c mod l = 0 then c div l else c div l + 1)"
    by simp
  also have "\<dots> = int ((c + l - 1) div l)"
    using ceil_nat_aux [OF assms, of c] by (simp only:)
  finally show ?thesis .
qed


lemma ceil_pos: "0 < l \<Longrightarrow> (0 < (c + l - 1) div l) = (0 < (c::nat))"
  by (simp add: div_greater_zero_iff, arith)

lemma to_double_small:
  assumes "\<bar>i\<bar> < 2 ^ 53"
  shows "to_double i = Fin i"
proof -
  have "nat \<bar>i\<bar> < 2 ^ 53"
    using assms by (simp add: nat_less_iff)
  then show ?thesis
    by (simp add: to_double_def Let_def)
qed

lemma decimal_2: "string_to_number ''2'' = Fin 2" "string_to_number ''10'' = Fin 10"
  by (simp_all add: string_to_number_def decimal_def is_digit_def str_value_def digit_val_def
      to_double_small)

lemma number_digits_small: "a < 2 ^ 53 \<Longrightarrow> number_digits a = show_nat a"
  by (simp add: number_digits_def)

text \<open>\<open>10 ^ 21\<close> as JavaScript prints it.\<close>

lemma number_digits_example: "number_digits 1000000000000000000000 = ''1e+21''"
  by (simp add: number_digits_def shortest_decimal_def shortest_at_def converts_to_def
      to_double_def Let_def show_nat.simps digit_char_def bit_length.simps exponent_form_def)

text \<open>Beyond \<open>2 ^ 53\<close>: the numeral \<open>2 ^ 53 + 1\<close> reads as \<open>2 ^ 53\<close>, and one less is
  \<open>2 ^ 53 - 1\<close>.\<close>

lemma bit_length_example: "bit_length 9007199254740993 = 54"
  by (simp add: bit_length.simps)

lemma rounding_example:
  "string_to_number ''9007199254740993'' = Fin 9007199254740992"
  "num_add (Fin 9007199254740992) (num_neg (Fin 1)) = Fin 9007199254740991"
  by (simp_all add: string_to_number_def decimal_def is_digit_def str_value_def digit_val_def
      to_double_def Let_def bit_length_example)

lemma js_numbers_simps:
  "str_number js_numbers = string_to_number"
  "number_str js_numbers = num_to_string"
  "count_number js_numbers n = Fin (int n)"
  "number_lt js_numbers = num_lt"
  "number_sub js_numbers a b = num_add a (num_neg b)"
  "number_add js_numbers = num_add"
  "number_ceil_div js_numbers = math_ceil_div"
  "number_json js_numbers = JNum"
  by (simp_all add: js_numbers_def)

lemma field_prev:
  assumes "findAndCountAll m d (query req) = Inr (count, rows)"
    and "number_lt js (count_number js 0) (totalPages js count (query_limit js (query req)))"
    and "js_gt js (query_page js (query req)) (count_number js 1)"
  shows "field (reply_links (getAppointments js m req d)) ''prev'' =
     JStr (page_url js (base_url req @ ''/appointments'')
        (js_minus js (query_page js (query req)) (count_number js 1)) (query_limit js (query req)))"
  using assms by (simp add: reply_links_ok map_of_JStr links_prev)

lemma field_next:
  assumes "findAndCountAll m d (query req) = Inr (count, rows)"
    and "number_lt js (count_number js 0) (totalPages js count (query_limit js (query req)))"
    and "js_lt js (query_page js (query req)) (totalPages js count (query_limit js (query req)))"
  shows "field (reply_links (getAppointments js m req d)) ''next'' =
     JStr (page_url js (base_url req @ ''/appointments'')
        (js_plus js (query_page js (query req)) (count_number js 1)) (query_limit js (query req)))"
  using assms by (simp add: reply_links_ok map_of_JStr links_next)

lemma num_lt_trans: "num_lt a b \<Longrightarrow> num_lt b c \<Longrightarrow> num_lt a c"
  by (cases a; cases b; cases c) auto

lemma show_digit_1: "show_nat (Suc 0) = ''1''"
  by (simp add: show_nat.simps digit_char_def)

text \<open>
  C9, as amended. Let a listing request succeed with \<open>count\<close> matching rows, a page that
  reads as the number \<open>p\<close> and a page size that reads as the number \<open>l\<close>. For a positive
  page size the reply reports \<open>totalPages = \<lceil>count / l\<rceil>\<close> (so \<open>3\<close> for 25 rows and a page
  size of 10). The links \<open>prev\<close> and \<open>next\<close> are generated only if there is data: \<open>prev\<close>
  is present iff the result is not empty and \<open>p > 1\<close>; \<open>next\<close> is present iff the result
  is not empty and \<open>p < totalPages\<close> (for a page size of zero \<open>totalPages\<close> is \<open>Infinity\<close> and
  every page has a successor). On an empty result neither link is present, whatever the
  page.
\<close>

theorem listing_page_links:
  assumes ok: "findAndCountAll m d (query req) = Inr (count, rows)"
    and pg: "to_number js_numbers (query_page js_numbers (query req)) = Fin (int p)"
    and lm: "to_number js_numbers (query_limit js_numbers (query req)) = Fin (int l)"
  shows "(0 < l \<longrightarrow>
            field (field (payload (getAppointments js_numbers m req d)) ''pagination'') ''totalPages''
            = JNum (Fin (int ((count + l - 1) div l))))
       \<and> (has_key (reply_links (getAppointments js_numbers m req d)) ''prev'' \<longleftrightarrow> 0 < count \<and> 1 < p)
       \<and> (has_key (reply_links (getAppointments js_numbers m req d)) ''next'' \<longleftrightarrow>
            0 < count \<and> (l = 0 \<or> p < (count + l - 1) div l))"
proof (cases "l = 0")
  case True
  then have tp: "totalPages js_numbers count (query_limit js_numbers (query req))
      = (if count = 0 then NaN else PosInf)"
    using lm by (simp add: totalPages_def js_numbers_simps)
  show ?thesis
    using True pg
    by (simp add: has_prev [OF ok] has_next [OF ok] tp js_gt_def js_lt_def js_numbers_simps)
next
  case False
  then have l: "0 < l" by simp
  have tp: "totalPages js_numbers count (query_limit js_numbers (query req))
      = Fin (int ((count + l - 1) div l))"
    using lm l by (simp add: totalPages_def ceil_div_nat js_numbers_simps)
  have body: "field (field (payload (getAppointments js_numbers m req d)) ''pagination'') ''totalPages''
      = JNum (Fin (int ((count + l - 1) div l)))"
    using ok tp by (simp add: getAppointments_def Let_def js_numbers_simps)
  have pos: "(0 < (count + l - 1) div l) = (0 < count)"
    using l by (rule ceil_pos)
  show ?thesis
    using l pg body pos
    by (simp add: has_prev [OF ok] has_next [OF ok] tp js_gt_def js_lt_def js_numbers_simps)
qed

text \<open>
  The theorem on the 25 rows of the example, with \<open>limit=10\<close>: three pages; page 2 has
  both links, page 3 has no \<open>next\<close>, and the default page 1 has no \<open>prev\<close>.
\<close>

theorem listing_page_links_witness:
  "field (field (payload (getAppointments js_numbers table_orm (list_request (Some ''2'') (Some ''10'')) table25))
      ''pagination'') ''totalPages'' = JNum (Fin 3)
   \<and> has_key (reply_links (getAppointments js_numbers table_orm (list_request (Some ''2'') (Some ''10'')) table25)) ''prev''
   \<and> has_key (reply_links (getAppointments js_numbers table_orm (list_request (Some ''2'') (Some ''10'')) table25)) ''next''
   \<and> \<not> has_key (reply_links (getAppointments js_numbers table_orm (list_request (Some ''3'') (Some ''10'')) table25)) ''next''
   \<and> \<not> has_key (reply_links (getAppointments js_numbers table_orm (list_request None (Some ''10'')) table25)) ''prev''"
proof -
  let ?r = "\<lambda>p. list_request p (Some ''10'')"
  have ok: "findAndCountAll table_orm table25 (query (?r p)) =
      Inr (25, take (limit_of (query (?r p)))
        (drop ((page_of (query (?r p)) - 1) * limit_of (query (?r p))) table25))" for p
    by (simp add: table_orm_def table25_def)
  have lm: "to_number js_numbers (query_limit js_numbers (query (?r p))) = Fin (int 10)" for p
    by (simp add: list_request_def no_query_def query_limit_def decimal_2 js_numbers_simps)
  have p2: "to_number js_numbers (query_page js_numbers (query (?r (Some ''2'')))) = Fin (int 2)"
    by (simp add: list_request_def no_query_def query_page_def decimal_2 js_numbers_simps)
  have p3: "to_number js_numbers (query_page js_numbers (query (?r (Some ''3'')))) = Fin (int 3)"
    by (simp add: list_request_def no_query_def query_page_def string_to_number_def decimal_def
        is_digit_def str_value_def digit_val_def to_double_small js_numbers_simps)
  have p1: "to_number js_numbers (query_page js_numbers (query (?r None))) = Fin (int 1)"
    by (simp add: list_request_def no_query_def query_page_def js_numbers_simps)
  show ?thesis
    using listing_page_links [OF ok p2 lm] listing_page_links [OF ok p3 lm]
      listing_page_links [OF ok p1 lm]
    by simp
qed

text \<open>
  C9 as stated fails on an empty collection: page 2 is after the first page, and the reply
  to \<open>page=2&limit=10\<close> has no \<open>prev\<close> link, because \<open>totalPages\<close> is \<open>0\<close>.
\<close>

theorem prev_absent_on_empty_listing:
  "js_gt js_numbers (query_page js_numbers (query (list_request (Some ''2'') (Some ''10'')))) (Fin 1)
   \<and> \<not> has_key (reply_links (getAppointments js_numbers table_orm
           (list_request (Some ''2'') (Some ''10'')) [])) ''prev''"
proof -
  have ok: "findAndCountAll table_orm [] (query (list_request (Some ''2'') (Some ''10''))) = Inr (0, [])"
    by (simp add: table_orm_def)
  have "totalPages js_numbers 0 (query_limit js_numbers (query (list_request (Some ''2'') (Some ''10''))))
      = Fin 0"
    by (simp add: totalPages_def query_limit_def list_request_def no_query_def decimal_2
        js_numbers_simps)
  then have "\<not> has_key (reply_links (getAppointments js_numbers table_orm
      (list_request (Some ''2'') (Some ''10'')) [])) ''prev''"
    by (simp add: has_prev [OF ok] js_numbers_simps)
  moreover have "js_gt js_numbers (query_page js_numbers (query (list_request (Some ''2'') (Some ''10''))))
      (Fin 1)"
    by (simp add: js_gt_def query_page_def list_request_def no_query_def decimal_2 js_numbers_simps)
  ultimately show ?thesis by simp
qed

text \<open>
  C10. Let a listing request succeed, with \<open>page\<close> supplied as the string \<open>s\<close>, whatever
  that string is, and \<open>1 < s < totalPages\<close> as the engine compares them. Then the \<open>prev\<close>
  link carries the number that \<open>s - 1\<close> evaluates to (\<open>ToNumber\<close> of \<open>s\<close>, minus one, printed
  as a number), and the \<open>next\<close> link carries the string \<open>s\<close> followed by the character
  \<open>1\<close>; when \<open>s\<close> is a decimal numeral that reads as the page \<open>10 * s + 1\<close>, not \<open>s + 1\<close>.
  The number operations are those of any engine in which \<open><\<close> is transitive, \<open>0 < 1\<close>,
  and the number \<open>1\<close> prints as \<open>1\<close>, as in JavaScript.
\<close>

theorem next_link_appends_digit:
  assumes ok: "findAndCountAll m d (query req) = Inr (count, rows)"
    and pg: "q_page (query req) = Some s"
    and lo: "number_lt js (count_number js 1) (str_number js s)"
    and hi: "number_lt js (str_number js s) (totalPages js count (query_limit js (query req)))"
    and trans: "\<forall>a b c. number_lt js a b \<longrightarrow> number_lt js b c \<longrightarrow> number_lt js a c"
    and zero_one: "number_lt js (count_number js 0) (count_number js 1)"
    and one: "number_str js (count_number js 1) = ''1''"
  shows "field (reply_links (getAppointments js m req d)) ''prev'' =
           JStr (base_url req @ ''/appointments?page=''
                 @ number_str js (number_sub js (str_number js s) (count_number js 1))
                 @ ''&limit='' @ to_string js (query_limit js (query req)))
       \<and> field (reply_links (getAppointments js m req d)) ''next'' =
           JStr (base_url req @ ''/appointments?page='' @ s @ ''1''
                 @ ''&limit='' @ to_string js (query_limit js (query req)))
       \<and> (decimal s \<longrightarrow> str_value (s @ ''1'') = 10 * str_value s + 1)"
proof -
  have page: "query_page js (query req) = QStr s"
    using pg by (simp add: query_page_def)
  have pos: "number_lt js (count_number js 0) (totalPages js count (query_limit js (query req)))"
    using trans zero_one lo hi by blast
  have gt: "js_gt js (query_page js (query req)) (count_number js 1)"
    using lo by (simp add: js_gt_def page)
  have lt: "js_lt js (query_page js (query req)) (totalPages js count (query_limit js (query req)))"
    using hi by (simp add: js_lt_def page)
  have minus: "to_string js (js_minus js (QStr s) (count_number js 1))
      = number_str js (number_sub js (str_number js s) (count_number js 1))"
    by (simp add: js_minus_def)
  have plus: "to_string js (js_plus js (QStr s) (count_number js 1)) = s @ ''1''"
    using one by simp
  have val: "str_value (s @ ''1'') = 10 * str_value s + 1"
    by (simp add: str_value_def digit_val_def)
  show ?thesis
    using field_prev [OF ok pos gt] field_next [OF ok pos lt] minus plus val
    by (simp add: page page_url_def)
qed

text \<open>
  With \<open>page=2\<close> and three pages, \<open>prev\<close> points at page 1 and \<open>next\<close> at page 21. With
  \<open>page=9007199254740993\<close> and \<open>limit=0\<close> (so that \<open>totalPages\<close> is \<open>Infinity\<close>) the page
  reads as \<open>2 ^ 53\<close>, and \<open>prev\<close> points at page \<open>2 ^ 53 - 1\<close>.
\<close>

theorem next_link_appends_digit_witness:
  "field (reply_links (getAppointments js_numbers table_orm (list_request (Some ''2'') (Some ''10'')) table25)) ''prev''
     = JStr ''http://localhost:3000/appointments?page=1&limit=10''
   \<and> field (reply_links (getAppointments js_numbers table_orm (list_request (Some ''2'') (Some ''10'')) table25)) ''next''
     = JStr ''http://localhost:3000/appointments?page=21&limit=10''
   \<and> str_value ''21'' = 21
   \<and> field (reply_links (getAppointments js_numbers table_orm
         (list_request (Some ''9007199254740993'') (Some ''0'')) table25)) ''prev''
     = JStr ''http://localhost:3000/appointments?page=9007199254740991&limit=0''
   \<and> field (reply_links (getAppointments js_numbers table_orm
         (list_request (Some ''9007199254740993'') (Some ''0'')) table25)) ''next''
     = JStr ''http://localhost:3000/appointments?page=90071992547409931&limit=0''"
proof -
  let ?req = "\<lambda>p l. list_request (Some p) (Some l)"
  have ok: "findAndCountAll table_orm table25 (query (?req p l)) =
      Inr (25, take (limit_of (query (?req p l)))
        (drop ((page_of (query (?req p l)) - 1) * limit_of (query (?req p l))) table25))" for p l
    by (simp add: table_orm_def table25_def)
  have pg: "q_page (query (?req p l)) = Some p" for p l
    by (simp add: list_request_def no_query_def)
  have dec: "decimal ''2''"
    by (simp add: decimal_def is_digit_def)
  have zero: "string_to_number ''0'' = Fin 0"
    by (simp add: string_to_number_def decimal_def is_digit_def str_value_def digit_val_def
        to_double_small)
  have lo: "number_lt js_numbers (count_number js_numbers 1) (str_number js_numbers ''2'')"
    "number_lt js_numbers (count_number js_numbers 1) (str_number js_numbers ''9007199254740993'')"
    by (simp_all add: js_numbers_simps decimal_2 rounding_example)
  have hi: "number_lt js_numbers (str_number js_numbers ''2'')
      (totalPages js_numbers 25 (query_limit js_numbers (query (?req ''2'' ''10''))))"
    "number_lt js_numbers (str_number js_numbers ''9007199254740993'')
      (totalPages js_numbers 25 (query_limit js_numbers (query (?req ''9007199254740993'' ''0''))))"
    by (simp_all add: totalPages_def query_limit_def list_request_def no_query_def decimal_2 zero
        rounding_example js_numbers_simps)
  have trans: "\<forall>a b c. number_lt js_numbers a b \<longrightarrow> number_lt js_numbers b c
      \<longrightarrow> number_lt js_numbers a c"
    using num_lt_trans by (auto simp add: js_numbers_simps)
  have zero_one: "number_lt js_numbers (count_number js_numbers 0) (count_number js_numbers 1)"
    by (simp add: js_numbers_simps)
  have one: "number_str js_numbers (count_number js_numbers 1) = ''1''"
    by (simp add: js_numbers_simps show_int_def number_digits_small show_digit_1)
  have b: "base_url (?req p l) = ''http://localhost:3000''" for p l
    by (simp add: base_url_def list_request_def)
  have l: "to_string js_numbers (query_limit js_numbers (query (?req p l))) = l" for p l
    by (simp add: query_limit_def list_request_def no_query_def)
  have p: "number_str js_numbers (number_sub js_numbers (str_number js_numbers ''2'')
      (count_number js_numbers 1)) = ''1''"
    by (simp add: js_numbers_simps decimal_2 to_double_small show_int_def number_digits_small show_digit_1)
  have p': "number_str js_numbers (number_sub js_numbers (str_number js_numbers ''9007199254740993'')
      (count_number js_numbers 1)) = ''9007199254740991''"
    by (simp add: js_numbers_simps rounding_example to_double_small show_int_def number_digits_small show_nat.simps
        digit_char_def)
  have n: "str_value ''21'' = 21"
    by (simp add: str_value_def digit_val_def)
  show ?thesis
    using next_link_appends_digit [OF ok pg lo(1) hi(1) trans zero_one one, unfolded b l p]
      next_link_appends_digit [OF ok pg lo(2) hi(2) trans zero_one one, unfolded b l p'] dec n
    by simp
qed

section \<open>Properties of the asynchronous update of one appointment\<close>

lemma length_hex_byte: "length (hex_byte b) = 2"
  by (simp add: hex_byte_def)

lemma randomUUID_length: "length (randomUUID rnd) = 36"
  by (simp add: randomUUID_def hex_group_def length_hex_byte)

lemma sample_uuid: "randomUUID sample_bytes = ''c8d9eafb-0c1d-4e3f-9061-728394a5b6c7''"
  by (simp add: randomUUID_def hex_group_def hex_byte_def hex_char_def uuid_byte_def sample_bytes_def)

lemma find_appt2: "findByPk table_orm (db world3) (params (id_request ''2'' b) ''id'') = Inr (Some (appt 2))"
  by (simp add: table_orm_def world3_def id_request_def column_is_def appt_def appt_user_def show_int_def number_digits_small
      show_nat.simps digit_char_def)

lemma find_appt99: "findByPk table_orm (db world3) (params (id_request ''99'' b) ''id'') = Inr None"
  by (simp add: table_orm_def world3_def id_request_def column_is_def appt_def appt_user_def show_int_def number_digits_small
      show_nat.simps digit_char_def)

text \<open>
  C1. When the target appointment exists, \<open>updateAppointmentAsync\<close> replies with status
  202, a \<open>Location\<close> header equal to the status URL, and a body holding that status URL
  and the operation id, a UUID of 36 characters. When the reply is sent the tracker holds,
  under the operation id, the record with status \<open>processing\<close> and the request payload as
  its \<open>data\<close>; this is the only write so far, the store is as it was, and the update
  itself is still pending.
\<close>

theorem async_update_accepted:
  assumes found: "findByPk m (db w) (params req ''id'') = Inr (Some a)"
    and run: "updateAppointmentAsync m rnd req w = (r, w', pending)"
  shows "status r = 202
       \<and> map_of (headers r) ''Location'' = Some (base_url req @ ''/operations/'' @ randomUUID rnd)
       \<and> field (payload r) ''statusUrl'' = JStr (base_url req @ ''/operations/'' @ randomUUID rnd)
       \<and> field (payload r) ''operationId'' = JStr (randomUUID rnd)
       \<and> length (randomUUID rnd) = 36
       \<and> db w' = db w
       \<and> cache w' = (randomUUID rnd, processing_record (params req ''id'') (body req)) # cache w
       \<and> cache_get (cache w') (randomUUID rnd) = Some (processing_record (params req ''id'') (body req))
       \<and> field (processing_record (params req ''id'') (body req)) ''status'' = JStr ''processing''
       \<and> field (processing_record (params req ''id'') (body req)) ''data'' = body req
       \<and> pending = Some (randomUUID rnd, a, body req)"
proof -
  have eq: "updateAppointmentAsync m rnd req w =
      (\<lparr>status = 202,
        headers = [(''Location'', base_url req @ ''/operations/'' @ randomUUID rnd)],
        payload = JObj
          [(''message'', JStr ''Update request accepted''),
           (''statusUrl'', JStr (base_url req @ ''/operations/'' @ randomUUID rnd)),
           (''operationId'', JStr (randomUUID rnd))]\<rparr>,
       w\<lparr>cache := cache_set (randomUUID rnd) (processing_record (params req ''id'') (body req)) (cache w)\<rparr>,
       Some (randomUUID rnd, a, body req))"
    using found by (simp add: updateAppointmentAsync_def Let_def)
  have rec: "field (processing_record (params req ''id'') (body req)) ''status'' = JStr ''processing''"
    "field (processing_record (params req ''id'') (body req)) ''data'' = body req"
    by (simp_all add: processing_record_def)
  show ?thesis
    using run rec unfolding eq
    by (auto simp add: cache_set_def cache_get_def randomUUID_length)
qed

text \<open>An update of appointment 2 of the example store.\<close>

theorem async_update_accepted_witness:
  "\<exists>r w'. updateAppointmentAsync table_orm sample_bytes (id_request ''2'' new_time) world3
       = (r, w', Some (''c8d9eafb-0c1d-4e3f-9061-728394a5b6c7'', appt 2, new_time))
     \<and> status r = 202
     \<and> map_of (headers r) ''Location''
         = Some ''http://localhost:3000/operations/c8d9eafb-0c1d-4e3f-9061-728394a5b6c7''
     \<and> field (payload r) ''operationId'' = JStr ''c8d9eafb-0c1d-4e3f-9061-728394a5b6c7''
     \<and> db w' = [appt 1, appt 2, appt 3]
     \<and> cache w' = [(''c8d9eafb-0c1d-4e3f-9061-728394a5b6c7'', processing_record (Some ''2'') new_time)]"
proof -
  obtain r w' pending
    where run: "updateAppointmentAsync table_orm sample_bytes (id_request ''2'' new_time) world3
      = (r, w', pending)"
    by (metis prod_cases3)
  have b: "base_url (id_request ''2'' new_time) = ''http://localhost:3000''"
    by (simp add: base_url_def id_request_def)
  have p: "params (id_request ''2'' new_time) ''id'' = Some ''2''" "body (id_request ''2'' new_time) = new_time"
    by (simp_all add: id_request_def)
  have w: "db world3 = [appt 1, appt 2, appt 3]" "cache world3 = []"
    by (simp_all add: world3_def)
  show ?thesis
    using async_update_accepted [OF find_appt2 run] run
    by (simp add: sample_uuid b p w)
qed

text \<open>
  C5. When no appointment has the requested id, \<open>updateAppointmentAsync\<close> replies 404 with
  the not-found message, leaves the store and the tracker as they were, and leaves no
  operation pending.
\<close>

theorem async_update_not_found:
  assumes "findByPk m (db w) (params req ''id'') = Inr None"
  shows "updateAppointmentAsync m rnd req w = (not_found_reply, w, None)
       \<and> status not_found_reply = 404
       \<and> payload not_found_reply = JObj [(''message'', JStr ''Appointment not found'')]"
  using assms by (simp add: updateAppointmentAsync_def not_found_reply_def)

text \<open>The example store has no appointment 99.\<close>

theorem async_update_not_found_witness:
  "updateAppointmentAsync table_orm sample_bytes (id_request ''99'' new_time) world3
     = (not_found_reply, world3, None)
   \<and> status not_found_reply = 404
   \<and> cache world3 = []"
  using async_update_not_found [OF find_appt99 [of new_time], of sample_bytes]
  by (simp add: world3_def)

lemma is_terminal_records:
  "is_terminal (completed_record a)" "is_terminal (failed_record a err)"
  "is_terminal job_completed" "is_terminal (job_failed err)"
  by (simp_all add: is_terminal_def completed_record_def failed_record_def job_completed_def
      job_failed_def)

lemma process_writes_once:
  "\<exists>t. is_terminal t \<and> cache (processAppointmentUpdate m op w) = (fst op, t) # cache w"
proof -
  obtain operationId a v where op: "op = (operationId, a, v)"
    by (cases op) auto
  show ?thesis
  proof (cases "instance_update m (db w) a v")
    case (Pair res a')
    then show ?thesis
      using is_terminal_records(1,2) [of a']
      by (cases res) (auto simp add: op processAppointmentUpdate_def cache_set_def)
  qed
qed

lemma bulk_task_writes_once:
  "\<exists>t. is_terminal t \<and> cache (bulk_task m job w) = (fst job, t) # cache w"
proof -
  obtain jobId items where job: "job = (jobId, items)"
    by (cases job) auto
  show ?thesis
  proof (cases "iterate items")
    case (Inl err)
    then show ?thesis
      using is_terminal_records(4) by (auto simp add: job bulk_task_def cache_set_def)
  next
    case (Inr xs)
    obtain res d' where loop: "bulk_loop m xs (db w) = (res, d')"
      by (cases "bulk_loop m xs (db w)") auto
    show ?thesis
      using Inr loop is_terminal_records(3,4)
      by (cases res) (auto simp add: job bulk_task_def cache_set_def)
  qed
qed

text \<open>
  The writes one operation makes to the tracker. An accepted asynchronous update
  writes the \<open>processing\<close> record (which is not terminal) under its own id, once, and a
  refused one writes nothing. Whatever state it finds when its timer fires,
  \<open>processAppointmentUpdate\<close> adds exactly one record under the operation id, a terminal
  one, and ends. Likewise the callback of a bulk job adds exactly one record under its
  job id, a terminal one, and ends. What is written under an id over time therefore
  depends on the operations that share the id.
\<close>

theorem one_terminal_write_per_operation:
  "(updateAppointmentAsync m rnd req w = (r, w1, Some op) \<longrightarrow>
      fst op = randomUUID rnd
      \<and> cache w1 = (fst op, processing_record (params req ''id'') (body req)) # cache w
      \<and> \<not> is_terminal (processing_record (params req ''id'') (body req)))
   \<and> (updateAppointmentAsync m rnd req w = (r, w1, None) \<longrightarrow> cache w1 = cache w)
   \<and> (\<exists>t. is_terminal t \<and> cache (processAppointmentUpdate m op w2) = (fst op, t) # cache w2)
   \<and> (\<exists>t. is_terminal t \<and> cache (bulk_task m job w2) = (fst job, t) # cache w2)"
proof -
  have accepted: "fst op = randomUUID rnd
      \<and> cache w1 = (fst op, processing_record (params req ''id'') (body req)) # cache w"
    if "updateAppointmentAsync m rnd req w = (r, w1, Some op)"
    using that
    by (auto simp add: updateAppointmentAsync_def Let_def cache_set_def
        split: sum.splits option.splits)
  have initial: "\<not> is_terminal (processing_record i b)" for i b
    by (simp add: is_terminal_def processing_record_def)
  have refused: "cache w1 = cache w" if "updateAppointmentAsync m rnd req w = (r, w1, None)"
    using that
    by (auto simp add: updateAppointmentAsync_def Let_def split: sum.splits option.splits)
  show ?thesis
    using accepted initial refused process_writes_once [of m op w2] bulk_task_writes_once [of m job w2]
    by simp
qed

text \<open>The update of appointment 2 from above, followed by its background task.\<close>

theorem one_terminal_write_per_operation_witness:
  "snd (snd (updateAppointmentAsync table_orm sample_bytes (id_request ''2'' new_time) world3))
     = Some (''c8d9eafb-0c1d-4e3f-9061-728394a5b6c7'', appt 2, new_time)
   \<and> cache (fst (snd (updateAppointmentAsync table_orm sample_bytes (id_request ''2'' new_time) world3)))
     = [(''c8d9eafb-0c1d-4e3f-9061-728394a5b6c7'', processing_record (Some ''2'') new_time)]
   \<and> is_terminal (completed_record (merge (appt 2) new_time))
   \<and> cache (processAppointmentUpdate table_orm
         (''c8d9eafb-0c1d-4e3f-9061-728394a5b6c7'', appt 2, new_time)
         (fst (snd (updateAppointmentAsync table_orm sample_bytes (id_request ''2'' new_time) world3))))
     = [(''c8d9eafb-0c1d-4e3f-9061-728394a5b6c7'', completed_record (merge (appt 2) new_time)),
        (''c8d9eafb-0c1d-4e3f-9061-728394a5b6c7'', processing_record (Some ''2'') new_time)]"
proof -
  let ?req = "id_request ''2'' new_time"
  let ?id = "''c8d9eafb-0c1d-4e3f-9061-728394a5b6c7''"
  let ?p = "processing_record (Some ''2'') new_time"
  let ?w1 = "world3\<lparr>cache := [(?id, ?p)]\<rparr>"
  let ?op = "(?id, appt 2, new_time)"
  have run: "snd (updateAppointmentAsync table_orm sample_bytes ?req world3) = (?w1, Some ?op)"
    using find_appt2 [of new_time]
    by (simp add: updateAppointmentAsync_def Let_def cache_set_def sample_uuid)
      (simp add: id_request_def world3_def)
  have fin: "cache (processAppointmentUpdate table_orm ?op ?w1)
      = [(?id, completed_record (merge (appt 2) new_time)), (?id, ?p)]"
    by (simp add: processAppointmentUpdate_def table_orm_def new_time_def cache_set_def)
  from one_terminal_write_per_operation [of table_orm sample_bytes ?req world3 _ ?w1 ?op ?w1]
  obtain t where "is_terminal t"
      and "cache (processAppointmentUpdate table_orm ?op ?w1) = (fst ?op, t) # cache ?w1"
    by blast
  then have "is_terminal (completed_record (merge (appt 2) new_time))"
    using fin by simp
  then show ?thesis
    using fin by (simp add: run)
qed

section \<open>Properties of the bulk update job\<close>

lemma applied_loop:
  "applied m d pre d1 \<Longrightarrow> bulk_loop m (pre @ rest) d = bulk_loop m rest d1"
  by (induction rule: applied.induct) simp_all

lemma applied_loop_all: "applied m d xs d' \<Longrightarrow> bulk_loop m xs d = (None, d')"
  using applied_loop [of m d xs d' "[]"] by simp

lemma bulk_loop_cases:
  "(\<exists>d'. applied m d xs d' \<and> bulk_loop m xs d = (None, d'))
   \<or> (\<exists>pre x post d1 err. xs = pre @ x # post \<and> applied m d pre d1
         \<and> item_update m d1 x = Inl err \<and> bulk_loop m xs d = (Some err, d1))"
proof (induction xs arbitrary: d)
  case Nil
  then show ?case by (auto intro: applied_none)
next
  case (Cons x xs)
  show ?case
  proof (cases "item_update m d x")
    case (Inl err)
    then have "x # xs = [] @ x # xs \<and> applied m d [] d \<and> item_update m d x = Inl err
        \<and> bulk_loop m (x # xs) d = (Some err, d)"
      by (simp add: applied_none)
    then show ?thesis by blast
  next
    case (Inr d1)
    from Cons.IH [of d1] show ?thesis
    proof
      assume "\<exists>d'. applied m d1 xs d' \<and> bulk_loop m xs d1 = (None, d')"
      then obtain d' where "applied m d1 xs d'" "bulk_loop m xs d1 = (None, d')"
        by blast
      then have "applied m d (x # xs) d' \<and> bulk_loop m (x # xs) d = (None, d')"
        using Inr by (simp add: applied_item)
      then show ?thesis by blast
    next
      assume "\<exists>pre y post d2 err. xs = pre @ y # post \<and> applied m d1 pre d2
          \<and> item_update m d2 y = Inl err \<and> bulk_loop m xs d1 = (Some err, d2)"
      then obtain pre y post d2 err where f: "xs = pre @ y # post" "applied m d1 pre d2"
          "item_update m d2 y = Inl err" "bulk_loop m xs d1 = (Some err, d2)"
        by blast
      then have "x # xs = (x # pre) @ y # post \<and> applied m d (x # pre) d2
          \<and> item_update m d2 y = Inl err \<and> bulk_loop m (x # xs) d = (Some err, d2)"
        using Inr by (simp add: applied_item)
      then show ?thesis by blast
    qed
  qed
qed

lemma loop_applied: "bulk_loop m xs d = (None, d') \<Longrightarrow> applied m d xs d'"
  using bulk_loop_cases [of m d xs] by auto

lemma bulk_acceptance:
  assumes "bulkUpdateAppointments now req = Inr (r, job)"
  shows "status r = 202" and "fst job = show_nat now"
    and "field (payload r) ''statusUrl'' = JStr (''/appointments/jobs/'' @ fst job)"
  using assms by (auto simp add: bulkUpdateAppointments_def Let_def split: sum.splits)

lemma bulk_task_completed:
  assumes "iterate (snd job) = Inr items" and "applied m (db w) items d'"
  shows "bulk_task m job w = \<lparr>db = d', cache = (fst job, job_completed) # cache w\<rparr>"
  using assms(1) applied_loop_all [OF assms(2)]
  by (cases job) (simp add: bulk_task_def cache_set_def)

lemma bulk_task_failed:
  assumes "iterate (snd job) = Inr (pre @ x # post)" and "applied m (db w) pre d1"
    and "item_update m d1 x = Inl err"
  shows "bulk_task m job w = \<lparr>db = d1, cache = (fst job, job_failed err) # cache w\<rparr>"
proof -
  have "bulk_loop m (pre @ x # post) (db w) = (Some err, d1)"
    using applied_loop [OF assms(2), of "x # post"] assms(3) by simp
  then show ?thesis
    using assms(1) by (cases job) (simp add: bulk_task_def cache_set_def)
qed

text \<open>
  C2. For an accepted bulk submission (status 202, with the job id in the status URL) the
  callback, a total function, ends with a terminal record under the job id: the status
  of that record is \<open>completed\<close> or \<open>failed\<close>. It is exactly \<open>{status: completed}\<close> when
  all updates succeed one after the other, and it has status \<open>failed\<close> when some update
  throws after the ones before it have succeeded. By \<open>bulk_loop_cases\<close> these two cases
  are all there is for a list of items.
\<close>

theorem bulk_job_reaches_terminal:
  assumes acc: "bulkUpdateAppointments now req = Inr (r, job)"
  shows "status r = 202
       \<and> field (payload r) ''statusUrl'' = JStr (''/appointments/jobs/'' @ fst job)
       \<and> (\<exists>t. cache_get (cache (bulk_task m job w)) (fst job) = Some t
              \<and> (field t ''status'' = JStr ''completed'' \<or> field t ''status'' = JStr ''failed''))
       \<and> (\<forall>items d'. iterate (snd job) = Inr items \<and> applied m (db w) items d' \<longrightarrow>
              cache_get (cache (bulk_task m job w)) (fst job)
                = Some (JObj [(''status'', JStr ''completed'')]))
       \<and> (\<forall>pre x post d1 err.
              iterate (snd job) = Inr (pre @ x # post) \<and> applied m (db w) pre d1
                \<and> item_update m d1 x = Inl err \<longrightarrow>
              (\<exists>t. cache_get (cache (bulk_task m job w)) (fst job) = Some t
                 \<and> field t ''status'' = JStr ''failed''))"
proof -
  obtain t where t: "is_terminal t" "cache (bulk_task m job w) = (fst job, t) # cache w"
    using bulk_task_writes_once by blast
  then have terminal: "\<exists>t. cache_get (cache (bulk_task m job w)) (fst job) = Some t
      \<and> (field t ''status'' = JStr ''completed'' \<or> field t ''status'' = JStr ''failed'')"
    by (auto simp add: cache_get_def is_terminal_def)
  have completed: "cache_get (cache (bulk_task m job w)) (fst job)
      = Some (JObj [(''status'', JStr ''completed'')])"
    if "iterate (snd job) = Inr items" "applied m (db w) items d'" for items d'
    using bulk_task_completed [OF that] by (simp add: cache_get_def job_completed_def)
  have failed: "\<exists>t. cache_get (cache (bulk_task m job w)) (fst job) = Some t
      \<and> field t ''status'' = JStr ''failed''"
    if "iterate (snd job) = Inr (pre @ x # post)" "applied m (db w) pre d1"
      "item_update m d1 x = Inl err" for pre x post d1 err
    using bulk_task_failed [OF that] by (simp add: cache_get_def job_failed_def)
  show ?thesis
    using bulk_acceptance(1,3) [OF acc] terminal completed failed by blast
qed

text \<open>
  C3. When the update of an item throws after the updates of the items before it have
  succeeded, in the order of the list, the callback leaves the store exactly as those
  earlier updates made it (nothing is rolled back and no later item is applied) and
  records \<open>{status: failed, error: m}\<close> under the job id, \<open>m\<close> being the message of the
  error thrown.
\<close>

theorem bulk_failure_keeps_prefix:
  assumes "iterate (snd job) = Inr (pre @ x # post)"
    and "applied m (db w) pre d1"
    and "item_update m d1 x = Inl err"
  shows "bulk_task m job w =
     \<lparr>db = d1,
      cache = (fst job, JObj [(''status'', JStr ''failed''), (''error'', JStr (err_message err))])
                # cache w\<rparr>"
  using bulk_task_failed [OF assms] by (simp add: job_failed_def)

lemma accept_bulk:
  "bulkUpdateAppointments 1730000000000 (bulk_request items) =
     Inr (\<lparr>status = 202, headers = [],
           payload = JObj
             [(''message'', JStr ''Update job accepted''),
              (''statusUrl'', JStr ''/appointments/jobs/1730000000000'')]\<rparr>,
          (''1730000000000'', items))"
  by (simp add: bulkUpdateAppointments_def bulk_request_def Let_def show_nat.simps digit_char_def)

lemma table_update_user:
  "item_update table_orm [appt_user 1 a, appt_user 2 b, appt_user 3 c] (change 1 ''userId'' (JNum (Fin u)))
     = Inr [appt_user 1 u, appt_user 2 b, appt_user 3 c]"
  "item_update table_orm [appt_user 1 a, appt_user 2 b, appt_user 3 c] (change 2 ''userId'' (JNum (Fin u)))
     = Inr [appt_user 1 a, appt_user 2 u, appt_user 3 c]"
  by (simp_all add: item_update_def table_orm_def change_def appt_user_def)

lemma table_update_null:
  "item_update table_orm rows (change i ''startTime'' JNull) = Inl validation_error"
  by (simp add: item_update_def table_orm_def change_def)

lemma applied_good:
  "applied table_orm (db world3) good_items [appt_user 1 5, appt_user 2 6, appt 3]"
  unfolding world3_def good_items_def appt_def
  by (simp add: applied.intros table_update_user)

lemma applied_bad_prefix:
  "applied table_orm [appt_user 1 a, appt_user 2 b, appt_user 3 c] [change 1 ''userId'' (JNum (Fin 8))]
     [appt_user 1 8, appt_user 2 b, appt_user 3 c]"
  by (simp add: applied.intros table_update_user)

text \<open>A job whose two updates succeed, and a job whose second update is rejected.\<close>

theorem bulk_job_reaches_terminal_witness:
  "cache_get (cache (bulk_task table_orm (''1730000000000'', JArr good_items) world3)) ''1730000000000''
     = Some (JObj [(''status'', JStr ''completed'')])
   \<and> (\<exists>t. cache_get (cache (bulk_task table_orm (''1730000000000'', JArr bad_items) world3))
              ''1730000000000'' = Some t
          \<and> field t ''status'' = JStr ''failed'')"
proof -
  have bad: "iterate (snd (''1730000000000'', JArr bad_items))
      = Inr ([change 1 ''userId'' (JNum (Fin 8))] @ change 2 ''startTime'' JNull
             # [change 3 ''userId'' (JNum (Fin 9))])"
    by (simp add: bad_items_def)
  have pre: "applied table_orm (db world3) [change 1 ''userId'' (JNum (Fin 8))]
      [appt_user 1 8, appt_user 2 42, appt_user 3 42]"
    unfolding world3_def appt_def by (simp add: applied_bad_prefix)
  have good: "iterate (snd (''1730000000000'', JArr good_items)) = Inr good_items"
    by simp
  show ?thesis
    using bulk_job_reaches_terminal [OF accept_bulk [of "JArr good_items"], of table_orm world3]
      bulk_job_reaches_terminal [OF accept_bulk [of "JArr bad_items"], of table_orm world3]
      good applied_good bad pre table_update_null
    by (metis fst_conv)
qed

text \<open>The rejected job: the first item stays applied, the third is never applied.\<close>

theorem bulk_failure_keeps_prefix_witness:
  "bulk_task table_orm (''1730000000000'', JArr bad_items) world3 =
     \<lparr>db = [appt_user 1 8, appt 2, appt 3],
      cache = [(''1730000000000'',
        JObj [(''status'', JStr ''failed''),
              (''error'', JStr ''notNull Violation: Appointment.startTime cannot be null'')])]\<rparr>"
proof -
  have bad: "iterate (snd (''1730000000000'', JArr bad_items))
      = Inr ([change 1 ''userId'' (JNum (Fin 8))] @ change 2 ''startTime'' JNull
             # [change 3 ''userId'' (JNum (Fin 9))])"
    by (simp add: bad_items_def)
  have pre: "applied table_orm (db world3) [change 1 ''userId'' (JNum (Fin 8))]
      [appt_user 1 8, appt 2, appt 3]"
    unfolding world3_def appt_def by (simp add: applied_bad_prefix)
  show ?thesis
    using bulk_failure_keeps_prefix [OF bad pre table_update_null]
    by (simp add: validation_error_def world3_def)
qed

text \<open>
  C6. Two different bulk submissions accepted in the same millisecond get the same job
  id, and the record of the first job is overwritten by the record of the second.
\<close>

theorem bulk_jobs_share_id:
  "fst (snd (projr (bulkUpdateAppointments 1730000000000 (bulk_request (JArr good_items)))))
     = ''1730000000000''
   \<and> fst (snd (projr (bulkUpdateAppointments 1730000000000 (bulk_request (JArr bad_items)))))
     = ''1730000000000''
   \<and> bulk_request (JArr good_items) \<noteq> bulk_request (JArr bad_items)
   \<and> history (cache (bulk_task table_orm (''1730000000000'', JArr bad_items)
         (bulk_task table_orm (''1730000000000'', JArr good_items) world3))) ''1730000000000''
     = [JObj [(''status'', JStr ''completed'')],
        JObj [(''status'', JStr ''failed''),
              (''error'', JStr ''notNull Violation: Appointment.startTime cannot be null'')]]"
proof -
  have first: "bulk_task table_orm (''1730000000000'', JArr good_items) world3
      = \<lparr>db = [appt_user 1 5, appt_user 2 6, appt 3],
         cache = [(''1730000000000'', job_completed)]\<rparr>"
    using bulk_task_completed [of "(''1730000000000'', JArr good_items)" good_items table_orm world3,
        OF _ applied_good]
    by (simp add: world3_def)
  have bad: "iterate (snd (''1730000000000'', JArr bad_items))
      = Inr ([change 1 ''userId'' (JNum (Fin 8))] @ change 2 ''startTime'' JNull
             # [change 3 ''userId'' (JNum (Fin 9))])"
    by (simp add: bad_items_def)
  have second: "bulk_task table_orm (''1730000000000'', JArr bad_items)
        \<lparr>db = [appt_user 1 5, appt_user 2 6, appt 3], cache = [(''1730000000000'', job_completed)]\<rparr>
      = \<lparr>db = [appt_user 1 8, appt_user 2 6, appt 3],
         cache = [(''1730000000000'', job_failed validation_error),
                  (''1730000000000'', job_completed)]\<rparr>"
  proof -
    have pre: "applied table_orm
        (db \<lparr>db = [appt_user 1 5, appt_user 2 6, appt 3], cache = [(''1730000000000'', job_completed)]\<rparr>)
        [change 1 ''userId'' (JNum (Fin 8))] [appt_user 1 8, appt_user 2 6, appt 3]"
      by (simp add: appt_def applied_bad_prefix)
    show ?thesis
      using bulk_task_failed [OF bad pre table_update_null] by simp
  qed
  have differ: "bulk_request (JArr good_items) \<noteq> bulk_request (JArr bad_items)"
    by (simp add: bulk_request_def good_items_def bad_items_def)
  have both: "cache (bulk_task table_orm (''1730000000000'', JArr bad_items)
        (bulk_task table_orm (''1730000000000'', JArr good_items) world3))
      = [(''1730000000000'', job_failed validation_error), (''1730000000000'', job_completed)]"
    by (simp only: first second world.simps)
  have hist: "history [(''1730000000000'', job_failed validation_error),
        (''1730000000000'', job_completed)] ''1730000000000''
      = [JObj [(''status'', JStr ''completed'')],
         JObj [(''status'', JStr ''failed''),
               (''error'', JStr ''notNull Violation: Appointment.startTime cannot be null'')]]"
    by (simp add: history_def job_completed_def job_failed_def validation_error_def)
  show ?thesis
    using differ by (simp add: accept_bulk both hist)
qed

lemma first_job_state:
  "bulk_task table_orm (''1730000000000'', JArr good_items) world3
     = \<lparr>db = [appt_user 1 5, appt_user 2 6, appt 3], cache = [(''1730000000000'', job_completed)]\<rparr>"
  using bulk_task_completed [of "(''1730000000000'', JArr good_items)" good_items table_orm world3,
      OF _ applied_good]
  by (simp add: world3_def)

lemma second_job_state:
  "bulk_task table_orm (''1730000000000'', JArr bad_items)
     \<lparr>db = [appt_user 1 5, appt_user 2 6, appt 3], cache = [(''1730000000000'', job_completed)]\<rparr>
   = \<lparr>db = [appt_user 1 8, appt_user 2 6, appt 3],
      cache = [(''1730000000000'', job_failed validation_error), (''1730000000000'', job_completed)]\<rparr>"
proof -
  have items: "iterate (snd (''1730000000000'', JArr bad_items))
      = Inr ([change 1 ''userId'' (JNum (Fin 8))] @ change 2 ''startTime'' JNull
             # [change 3 ''userId'' (JNum (Fin 9))])"
    by (simp add: bad_items_def)
  have pre: "applied table_orm
      (db \<lparr>db = [appt_user 1 5, appt_user 2 6, appt 3], cache = [(''1730000000000'', job_completed)]\<rparr>)
      [change 1 ''userId'' (JNum (Fin 8))] [appt_user 1 8, appt_user 2 6, appt 3]"
    by (simp add: appt_def applied_bad_prefix)
  show ?thesis
    using bulk_task_failed [OF items pre table_update_null] by simp
qed

text \<open>
  C4. Two bulk submissions accepted in the same millisecond share their job id. The
  record under that id is absent at first, the first job writes the terminal record
  \<open>completed\<close>, and the second job then writes again under the same id, the terminal
  record \<open>failed\<close>: a write after a terminal state, and two terminal states for one id.
\<close>

theorem job_record_rewritten_after_terminal:
  "snd (projr (bulkUpdateAppointments 1730000000000 (bulk_request (JArr good_items))))
     = (''1730000000000'', JArr good_items)
   \<and> snd (projr (bulkUpdateAppointments 1730000000000 (bulk_request (JArr bad_items))))
     = (''1730000000000'', JArr bad_items)
   \<and> history (cache world3) ''1730000000000'' = []
   \<and> history (cache (bulk_task table_orm (''1730000000000'', JArr good_items) world3))
         ''1730000000000'' = [job_completed]
   \<and> is_terminal job_completed
   \<and> history (cache (bulk_task table_orm (''1730000000000'', JArr bad_items)
         (bulk_task table_orm (''1730000000000'', JArr good_items) world3))) ''1730000000000''
       = [job_completed, job_failed validation_error]
   \<and> is_terminal (job_failed validation_error)"
proof -
  have one: "history (cache (bulk_task table_orm (''1730000000000'', JArr good_items) world3))
      ''1730000000000'' = [job_completed]"
    by (simp only: first_job_state world.simps) (simp add: history_def)
  have two: "history (cache (bulk_task table_orm (''1730000000000'', JArr bad_items)
        (bulk_task table_orm (''1730000000000'', JArr good_items) world3))) ''1730000000000''
      = [job_completed, job_failed validation_error]"
    by (simp only: first_job_state second_job_state world.simps) (simp add: history_def)
  have none: "history (cache world3) ''1730000000000'' = []"
    by (simp add: world3_def history_def)
  show ?thesis
    using one two none is_terminal_records(3,4) by (simp add: accept_bulk)
qed

section \<open>Properties of the synchronous handlers\<close>

lemma get_by_id_missing:
  "findByPk m d (params req ''id'') = Inr None \<Longrightarrow>
   getAppointmentById m req d = error_reply 500 (reference_error ''baseUrl'')"
  by (simp add: getAppointmentById_def getAppointmentById_try_def)

lemma update_missing:
  "findByPk m d (params req ''id'') = Inr None \<Longrightarrow> updateAppointment m req d = (not_found_reply, d)"
  by (simp add: updateAppointment_def)

lemma delete_missing:
  "findByPk m d (params req ''id'') = Inr None \<Longrightarrow> deleteAppointment m req d = (not_found_reply, d)"
  by (simp add: deleteAppointment_def)

lemma find_in_table:
  "findByPk table_orm [appt 1, appt 2, appt 3] (params (id_request ''99'' b) ''id'') = Inr None"
  "findByPk table_orm [appt 1, appt 2, appt 3] (params (id_request ''2'' b) ''id'') = Inr (Some (appt 2))"
  "findByPk no_delete_orm [appt 1, appt 2, appt 3] (params (id_request ''2'' b) ''id'') = Inr (Some (appt 2))"
  using find_appt99 [of b] find_appt2 [of b] by (simp_all add: world3_def no_delete_orm_def)

text \<open>
  C8. A request for an appointment that does not exist is answered with 404 and the
  not-found message by \<open>updateAppointment\<close> and \<open>deleteAppointment\<close>, but with 500 and the
  message of a \<open>ReferenceError\<close> by \<open>getAppointmentById\<close>: on the example store, which has
  no appointment 99.
\<close>

theorem get_missing_appointment_replies_500:
  "getAppointmentById table_orm (id_request ''99'' JUndefined) [appt 1, appt 2, appt 3]
     = \<lparr>status = 500, headers = [], payload = JObj [(''error'', JStr ''baseUrl is not defined'')]\<rparr>
   \<and> updateAppointment table_orm (id_request ''99'' new_time) [appt 1, appt 2, appt 3]
     = (\<lparr>status = 404, headers = [], payload = JObj [(''message'', JStr ''Appointment not found'')]\<rparr>,
        [appt 1, appt 2, appt 3])
   \<and> deleteAppointment table_orm (id_request ''99'' JUndefined) [appt 1, appt 2, appt 3]
     = (\<lparr>status = 404, headers = [], payload = JObj [(''message'', JStr ''Appointment not found'')]\<rparr>,
        [appt 1, appt 2, appt 3])"
  by (simp add: get_by_id_missing update_missing delete_missing find_in_table error_reply_def
      reference_error_def not_found_reply_def)

text \<open>
  C7, as amended. Each synchronous handler answers an error thrown by one of its
  data-store operations with a status that is fixed for the handler, whatever the kind of
  the error, and with the body \<open>{error: message}\<close>: 400 for \<open>createAppointment\<close> and
  \<open>updateAppointment\<close>, 500 for the listing, \<open>getAppointmentById\<close>, \<open>deleteAppointment\<close>
  and the handlers by user and by schedule. The mapping by kind (validation error to 400,
  unique-constraint violation to 409, anything else to 500) is what \<open>errorHandler\<close>
  computes.
\<close>

theorem fixed_status_per_handler:
  "(create m d (body req) = Inl e \<longrightarrow> createAppointment m req d = (error_reply 400 e, d))
   \<and> (findByPk m d (params req ''id'') = Inl e \<longrightarrow>
         getAppointmentById m req d = error_reply 500 e
         \<and> updateAppointment m req d = (error_reply 400 e, d)
         \<and> deleteAppointment m req d = (error_reply 500 e, d))
   \<and> (findByPk m d (params req ''id'') = Inr (Some a) \<and> fst (instance_update m d a (body req)) = Inl e \<longrightarrow>
         updateAppointment m req d = (error_reply 400 e, d))
   \<and> (findByPk m d (params req ''id'') = Inr (Some a) \<and> instance_destroy m d a = Inl e \<longrightarrow>
         deleteAppointment m req d = (error_reply 500 e, d))
   \<and> (findAndCountAll m d (query req) = Inl e \<longrightarrow> getAppointments js m req d = error_reply 500 e)
   \<and> (findAll m d ''userId'' (params req ''userId'') = Inl e \<longrightarrow>
         getAppointmentsByUserId m req d = error_reply 500 e)
   \<and> (destroy_where m d ''userId'' (params req ''userId'') = Inl e \<longrightarrow>
         deleteAppointmentsByUserId m req d = (error_reply 500 e, d))
   \<and> (findAll m d ''scheduleId'' (params req ''scheduleId'') = Inl e \<longrightarrow>
         getAppointmentsByScheduleId m req d = error_reply 500 e)
   \<and> status (error_reply c e) = c
   \<and> payload (error_reply c e) = JObj [(''error'', JStr (err_message e))]
   \<and> status (errorHandler e) =
         (if err_name e = ''SequelizeValidationError'' then 400
          else if err_name e = ''SequelizeUniqueConstraintError'' then 409
          else 500)"
proof -
  have upd: "updateAppointment m req d = (error_reply 400 e, d)"
    if "findByPk m d (params req ''id'') = Inr (Some a)" "fst (instance_update m d a (body req)) = Inl e"
    using that by (cases "instance_update m d a (body req)") (simp add: updateAppointment_def)
  have rest: "create m d (body req) = Inl e \<longrightarrow> createAppointment m req d = (error_reply 400 e, d)"
    "findByPk m d (params req ''id'') = Inl e \<longrightarrow>
         getAppointmentById m req d = error_reply 500 e
         \<and> updateAppointment m req d = (error_reply 400 e, d)
         \<and> deleteAppointment m req d = (error_reply 500 e, d)"
    "findByPk m d (params req ''id'') = Inr (Some a) \<and> instance_destroy m d a = Inl e \<longrightarrow>
         deleteAppointment m req d = (error_reply 500 e, d)"
    "findAndCountAll m d (query req) = Inl e \<longrightarrow> getAppointments js m req d = error_reply 500 e"
    "findAll m d ''userId'' (params req ''userId'') = Inl e \<longrightarrow>
         getAppointmentsByUserId m req d = error_reply 500 e"
    "destroy_where m d ''userId'' (params req ''userId'') = Inl e \<longrightarrow>
         deleteAppointmentsByUserId m req d = (error_reply 500 e, d)"
    "findAll m d ''scheduleId'' (params req ''scheduleId'') = Inl e \<longrightarrow>
         getAppointmentsByScheduleId m req d = error_reply 500 e"
    by (simp_all add: createAppointment_def getAppointmentById_def getAppointmentById_try_def
        updateAppointment_def deleteAppointment_def getAppointments_def Let_def
        getAppointmentsByUserId_def deleteAppointmentsByUserId_def getAppointmentsByScheduleId_def)
  have reply: "status (error_reply c e) = c"
    "payload (error_reply c e) = JObj [(''error'', JStr (err_message e))]"
    by (simp_all add: error_reply_def)
  have handler: "status (errorHandler e) =
         (if err_name e = ''SequelizeValidationError'' then 400
          else if err_name e = ''SequelizeUniqueConstraintError'' then 409
          else 500)"
    by (simp add: errorHandler_def)
  show ?thesis
    using upd rest reply handler by blast
qed

lemma table_create_duplicate:
  "create table_orm [appt 1, appt 2, appt 3] (body (body_request (appt 1))) = Inl unique_error"
  by (simp add: table_orm_def body_request_def appt_def appt_user_def)

lemma table_update_rejected:
  "fst (instance_update table_orm rows a (body (id_request i null_time))) = Inl validation_error"
  by (simp add: table_orm_def id_request_def null_time_def)

text \<open>
  A duplicate id on create, a \<open>null\<close> start time on update, a refused deletion, and an
  unreachable database under the other handlers.
\<close>

theorem fixed_status_per_handler_witness:
  "createAppointment table_orm (body_request (appt 1)) [appt 1, appt 2, appt 3]
     = (error_reply 400 unique_error, [appt 1, appt 2, appt 3])
   \<and> updateAppointment table_orm (id_request ''2'' null_time) [appt 1, appt 2, appt 3]
     = (error_reply 400 validation_error, [appt 1, appt 2, appt 3])
   \<and> deleteAppointment no_delete_orm (id_request ''2'' JUndefined) [appt 1, appt 2, appt 3]
     = (error_reply 500 connection_error, [appt 1, appt 2, appt 3])
   \<and> getAppointmentById (failing_orm unique_error) (id_request ''2'' JUndefined) [appt 1]
     = error_reply 500 unique_error
   \<and> getAppointments js_numbers (failing_orm validation_error) (list_request None None) [appt 1]
     = error_reply 500 validation_error
   \<and> getAppointmentsByUserId (failing_orm unique_error) (body_request JUndefined) [appt 1]
     = error_reply 500 unique_error
   \<and> deleteAppointmentsByUserId (failing_orm unique_error) (body_request JUndefined) [appt 1]
     = (error_reply 500 unique_error, [appt 1])
   \<and> getAppointmentsByScheduleId (failing_orm unique_error) (body_request JUndefined) [appt 1]
     = error_reply 500 unique_error
   \<and> status (error_reply 400 unique_error) = 400
   \<and> status (errorHandler validation_error) = 400
   \<and> status (errorHandler unique_error) = 409
   \<and> status (errorHandler connection_error) = 500"
proof -
  let ?rows = "[appt 1, appt 2, appt 3]"
  have destroy: "instance_destroy no_delete_orm ?rows (appt 2) = Inl connection_error"
    by (simp add: no_delete_orm_def)
  have failing: "findByPk (failing_orm err) d i = Inl err"
    "findAndCountAll (failing_orm err) d q = Inl err"
    "findAll (failing_orm err) d k i = Inl err"
    "destroy_where (failing_orm err) d k i = Inl err" for err and d :: "json list" and i q k
    by (simp_all add: failing_orm_def)
  have names: "err_name validation_error = ''SequelizeValidationError''"
    "err_name unique_error = ''SequelizeUniqueConstraintError''"
    "err_name connection_error = ''SequelizeConnectionRefusedError''"
    by (simp_all add: validation_error_def unique_error_def connection_error_def)
  show ?thesis
    using fixed_status_per_handler [where js = js_numbers and m = table_orm and d = ?rows
          and req = "body_request (appt 1)" and e = unique_error and c = 400]
      fixed_status_per_handler [where js = js_numbers and m = table_orm and d = ?rows
          and req = "id_request ''2'' null_time" and e = validation_error and a = "appt 2"]
      fixed_status_per_handler [where js = js_numbers and m = no_delete_orm and d = ?rows
          and req = "id_request ''2'' JUndefined" and e = connection_error and a = "appt 2"]
      fixed_status_per_handler [where js = js_numbers and m = "failing_orm unique_error" and d = "[appt 1]"
          and req = "id_request ''2'' JUndefined" and e = unique_error]
      fixed_status_per_handler [where js = js_numbers and m = "failing_orm validation_error" and d = "[appt 1]"
          and req = "list_request None None" and e = validation_error]
      fixed_status_per_handler [where js = js_numbers and m = "failing_orm unique_error" and d = "[appt 1]"
          and req = "body_request JUndefined" and e = unique_error]
    by (simp add: table_create_duplicate table_update_rejected find_in_table destroy failing names)
qed

text \<open>
  C7 as stated fails: \<open>createAppointment\<close> answers a unique-constraint violation with
  400, not 409, and an error of no special kind with 400, not 500.
\<close>

theorem create_conflict_replies_400:
  "create table_orm [appt 1, appt 2, appt 3] (body (body_request (appt 1))) = Inl unique_error
   \<and> err_name unique_error = ''SequelizeUniqueConstraintError''
   \<and> status (fst (createAppointment table_orm (body_request (appt 1)) [appt 1, appt 2, appt 3])) = 400
   \<and> status (errorHandler unique_error) = 409
   \<and> err_name connection_error = ''SequelizeConnectionRefusedError''
   \<and> status (fst (createAppointment (failing_orm connection_error) (body_request (appt 4))
         [appt 1, appt 2, appt 3])) = 400"
  by (simp add: table_create_duplicate createAppointment_def error_reply_def errorHandler_def
      unique_error_def connection_error_def failing_orm_def)

end
